theory Spec2Isabelle
  imports Main "HOL-Library.Word"
begin

section \<open>Data model\<close>

text \<open>
  The reconciler of \<^verbatim>\<open>zedrouter\<close> (handleCreate, handleModify, handleDelete and their
  wrappers) works on the types of the \<^verbatim>\<open>types\<close> package. Only their uses are in the
  source file, so each struct is a record of the fields the reconciler reads or writes.
  A \<^verbatim>\<open>net.IP\<close> and a \<^verbatim>\<open>net.HardwareAddr\<close> are their text, the empty string being
  the nil or empty value; a nil pointer or nil slice that the code tests for is
  \<open>None\<close>.
\<close>

type_synonym ACE = string
type_synonym DnsNameToIP = "string \<times> string list"

record UUIDandVersion =
  UUID :: string
  Version :: string

record AdditionalInfoDevice =
  UnderlayIP :: string
  Hostname :: string

record AdditionalInfoApp =
  DeviceEID :: string
  DeviceIID :: "32 word"
  AppDisplayName :: string
  AppUnderlayIP :: string
  AppHostname :: string

text \<open>The fields the overlay and the underlay configuration have in common.\<close>

record IfConfig =
  Network :: string
  ACLs :: "ACE list"
  AppMacAddr :: "string option"

record OverlayNetworkConfig = IfConfig +
  EID :: string
  LispSignature :: string
  MgmtIID :: "32 word"
  MgmtMapServers :: "string list"
  MgmtDnsNameToIPList :: "DnsNameToIP list"
  AdditionalInfoDevice :: "AdditionalInfoDevice option"

record UnderlayNetworkConfig = IfConfig +
  AppIPAddr :: "string option"

text \<open>
  The status of one attachment embeds its configuration and adds what the reconciler
  bound: bridge, virtual interface, MAC and addresses.
\<close>

record IfStatus =
  Bridge :: string
  Vif :: string
  Mac :: string
  BridgeMac :: string
  BridgeIPAddr :: string
  HostName :: string

record OverlayNetworkStatus = IfStatus +
  OverlayNetworkConfig :: OverlayNetworkConfig

record UnderlayNetworkStatus = IfStatus +
  UnderlayNetworkConfig :: UnderlayNetworkConfig
  AssignedIPAddr :: string

text \<open>
  AppNetworkConfig and AppNetworkStatus share the names of six fields; the record of
  the shared fields is generic in the type of the list entries.
\<close>

record ('ol, 'ul) AppNetworkBase =
  UUIDandVersion :: UUIDandVersion
  DisplayName :: string
  IsZedmanager :: bool
  SeparateDataPlane :: bool
  OverlayNetworkList :: "'ol list"
  UnderlayNetworkList :: "'ul list"

type_synonym AppNetworkConfig = "(OverlayNetworkConfig, UnderlayNetworkConfig) AppNetworkBase"

record AppNetworkStatus = "(OverlayNetworkStatus, UnderlayNetworkStatus) AppNetworkBase" +
  AppNum :: int
  PendingAdd :: bool
  PendingModify :: bool
  PendingDelete :: bool
  OlNum :: int
  UlNum :: int
  Error :: string
  ErrorTime :: nat

record NetworkObjectConfig =
  NetworkKey :: string

record NetworkObjectStatus =
  NetUUID :: string
  BridgeNum :: int
  BridgeName :: string
  NetBridgeIPAddr :: string
  DnsNameToIPList :: "DnsNameToIP list"
  BridgeIPSets :: "string list"

record LispServiceStatus =
  IID :: "32 word"
  MapServers :: "string list"

record NetworkServiceStatus =
  ServiceKey :: string
  AppLink :: string
  Activated :: bool
  Adapter :: string
  LispStatus :: LispServiceStatus

datatype link = BridgeLink (HardwareAddr: string) (Index: int) | OtherLink string

subsection \<open>Calls to the collaborators\<close>

text \<open>
  Every call that leaves the reconciler (netlink, the configlet writers, dnsmasq, ipset,
  the LISP configlets, the address allocator, and the publication of a status) is
  recorded in the order the code makes it: the publication and the removal of a
  status as such, any other call as the name of the function called and its arguments.
\<close>

datatype arg =
    Str string
  | Num int
  | Flag bool
  | Strs "string list"
  | OptStr "string option"
  | Dns "DnsNameToIP list"
  | Word32 "32 word"
  | NetConfig NetworkObjectConfig

datatype effect =
    PublishApp string AppNetworkStatus
  | UnpublishApp string
  | PublishNet string NetworkObjectStatus
  | Call string "arg list"

subsection \<open>The context and the globals\<close>

text \<open>
  zedrouterContext with the publications and subscriptions the reconciler reads, the
  three package-level variables of the device identity (deviceEID, deviceIID,
  additionalInfoDevice), the table of the numeric-ID allocator, and the calls made
  so far.
\<close>

record zedrouterContext =
  separateDataPlane :: bool
  subNetworkObjectConfig :: "string \<rightharpoonup> NetworkObjectConfig"
  pubNetworkObjectStatus :: "string \<rightharpoonup> NetworkObjectStatus"
  pubNetworkServiceStatus :: "NetworkServiceStatus list"
  pubAppNetworkStatus :: "string \<rightharpoonup> AppNetworkStatus"
  DeviceNetworkStatus :: "string list"
  deviceEID :: string
  deviceIID :: "32 word"
  additionalInfoDevice :: "AdditionalInfoDevice option"
  AllocatedAppNum :: "(string \<times> bool \<times> int) list"
  effects :: "effect list"

text \<open>
  What the collaborators answer. The functions of other packages and the helpers of
  this package whose bodies are in other files are parameters of the model; an answer
  that can change from call to call is a function of the calls made so far.
  \<open>keyOf\<close> is the \<^verbatim>\<open>Key()\<close> method of a configuration or status, a function of its
  UUIDandVersion; \<open>callErr\<close> is the error a call returns, if any; a parser returns
  the error (\<open>Inl\<close>) or the text of what it parsed.
\<close>

record extern =
  keyOf :: "UUIDandVersion \<Rightarrow> string"
  callErr :: "effect list \<Rightarrow> effect \<Rightarrow> string option"
  timeNow :: "effect list \<Rightarrow> nat"
  ParseMAC :: "string \<Rightarrow> string option"
  ParseAddr :: "string \<Rightarrow> string + string"
  ParseCIDR :: "string \<Rightarrow> string + string"
  ParseIP :: "string \<Rightarrow> string option"
  LinkByName :: "effect list \<Rightarrow> string \<Rightarrow> link option \<times> string"
  linkIndex :: "effect list \<Rightarrow> string \<Rightarrow> int"
  jsonMarshalDevice :: "AdditionalInfoDevice \<Rightarrow> string option"
  jsonMarshalApp :: "AdditionalInfoApp \<Rightarrow> string option"
  lookupOrAllocateIPv4 :: "effect list \<Rightarrow> NetworkObjectStatus \<Rightarrow> string \<Rightarrow> string + string"
  getBridgeServiceIPv4Addr :: "zedrouterContext \<Rightarrow> string \<Rightarrow> string + string"
  compileAppInstanceIpsets ::
    "zedrouterContext \<Rightarrow> OverlayNetworkConfig list \<Rightarrow> UnderlayNetworkConfig list \<Rightarrow> string list"
  compileOldAppInstanceIpsets ::
    "zedrouterContext \<Rightarrow> OverlayNetworkStatus list \<Rightarrow> UnderlayNetworkStatus list \<Rightarrow> string
      \<Rightarrow> string list"
  addVifToBridge :: "NetworkObjectStatus \<Rightarrow> string \<Rightarrow> NetworkObjectStatus"
  removeVifFromBridge :: "NetworkObjectStatus \<Rightarrow> string \<Rightarrow> NetworkObjectStatus"
  getAdapters :: "zedrouterContext \<Rightarrow> string \<Rightarrow> string list"
  lookupAppLink :: "zedrouterContext \<Rightarrow> string \<Rightarrow> NetworkServiceStatus option"

text \<open>
  The local variables of a handler: the context it was given and its \<^verbatim>\<open>status\<close>,
  which the handler changes and publishes as it goes.
\<close>

record frame =
  zctx :: zedrouterContext
  stat :: AppNetworkStatus

text \<open>
  How a block of a handler ends: \<^verbatim>\<open>log.Fatal\<close> (the process exits), a \<^verbatim>\<open>return\<close>
  from the handler, or control reaching the statement after the block (in a loop
  body, the next iteration; a \<^verbatim>\<open>continue\<close> is \<open>Next\<close> too).
\<close>

datatype 'a outcome = Fatal string | Return 'a | Next 'a

section \<open>Helpers of the reconciler\<close>

subsection \<open>Formatting\<close>

text \<open>
  \<^verbatim>\<open>strconv.Itoa\<close>, and \<^verbatim>\<open>%02x\<close> of \<^verbatim>\<open>fmt.Sprintf\<close> (at least two characters, the
  sign counted, padded with zeros).
\<close>

definition digitChar :: "nat \<Rightarrow> char" where
  "digitChar d = ''0123456789abcdef'' ! (d mod 16)"

fun natToDec :: "nat \<Rightarrow> string" where
  "natToDec n = (if n < 10 then [digitChar n] else natToDec (n div 10) @ [digitChar (n mod 10)])"

fun natToHex :: "nat \<Rightarrow> string" where
  "natToHex n = (if n < 16 then [digitChar n] else natToHex (n div 16) @ [digitChar (n mod 16)])"

declare natToDec.simps [simp del]
declare natToHex.simps [simp del]

definition Itoa :: "int \<Rightarrow> string" where
  "Itoa n = (if n < 0 then CHR ''-'' # natToDec (nat (- n)) else natToDec (nat n))"

definition hex02 :: "int \<Rightarrow> string" where
  "hex02 n =
     (if n < 0 then CHR ''-'' # natToHex (nat (- n))
      else if n < 16 then CHR ''0'' # natToHex (nat n)
      else natToHex (nat n))"

text \<open>
  The name of a dummy or virtual interface: every such name in the source is
  \<^verbatim>\<open>prefix + strconv.Itoa(num) + "x" + strconv.Itoa(n)\<close> with the prefix
  \<^verbatim>\<open>"dbo"\<close>, \<^verbatim>\<open>"nbo"\<close> or \<^verbatim>\<open>"nbu"\<close>.
\<close>

definition ifName :: "string \<Rightarrow> int \<Rightarrow> int \<Rightarrow> string" where
  "ifName prefix num n = prefix @ Itoa num @ ''x'' @ Itoa n"

text \<open>\<^verbatim>\<open>net.IP.String()\<close>: the nil and the empty address print as \<^verbatim>\<open><nil>\<close>.\<close>

definition IPString :: "string \<Rightarrow> string" where
  "IPString ip = (if ip = [] then ''<nil>'' else ip)"

text \<open>\<^verbatim>\<open>%s\<close> of a UUIDandVersion.\<close>

definition showUV :: "UUIDandVersion \<Rightarrow> string" where
  "showUV uv = ''{'' @ UUID uv @ '' '' @ Version uv @ ''}''"

text \<open>The two directory names handleInit sets from the constant runDirname.\<close>

definition globalRunDirname :: string where
  "globalRunDirname = ''/var/run/zedrouter''"

definition lispRunDirname :: string where
  "lispRunDirname = globalRunDirname @ ''/lisp''"

subsection \<open>Allocator and ipset helpers\<close>

text \<open>
  Modelled from the spec: appNumAllocate and appNumFree, the numeric-ID allocator,
  whose bodies are not in the source file. An instance keeps the number it has; a new
  instance gets the smallest integer unused in its namespace (management or regular);
  appNumFree returns the number to the pool.
\<close>

definition appNumAllocate ::
  "string \<Rightarrow> bool \<Rightarrow> (string \<times> bool \<times> int) list \<Rightarrow> int \<times> (string \<times> bool \<times> int) list" where
  "appNumAllocate uuid isZedmanager tab =
     (case map_of tab uuid of
        Some (ns, n) \<Rightarrow> (n, tab)
      | None \<Rightarrow>
          (let used = map (\<lambda>(u, ns, n). n) (filter (\<lambda>(u, ns, n). ns = isZedmanager) tab);
               n = (case find (\<lambda>k. k \<notin> set used) (map int [0 ..< Suc (length used)]) of
                      Some k \<Rightarrow> k
                    | None \<Rightarrow> int (length used))
           in (n, tab @ [(uuid, isZedmanager, n)])))"

definition appNumFree :: "string \<Rightarrow> (string \<times> bool \<times> int) list \<Rightarrow> (string \<times> bool \<times> int) list" where
  "appNumFree uuid tab = filter (\<lambda>(u, ns, n). u \<noteq> uuid) tab"

text \<open>
  Modelled from the spec: diffIpsets, whose body is not in the source file:
  \<^verbatim>\<open>diff(required, existing)\<close> returns \<^verbatim>\<open>(merged, stale, restartNeeded)\<close>, the merged
  sets being the required ones, the stale ones the existing sets no longer required,
  and a restart being needed iff the merged sets differ from the existing ones.
\<close>

definition diffIpsets :: "string list \<Rightarrow> string list \<Rightarrow> string list \<times> string list \<times> bool" where
  "diffIpsets newIpsets oldIpsets =
     (newIpsets, filter (\<lambda>s. s \<notin> set newIpsets) oldIpsets, set newIpsets \<noteq> set oldIpsets)"

subsection \<open>Publishing and looking up\<close>

definition emit :: "effect \<Rightarrow> zedrouterContext \<Rightarrow> zedrouterContext" where
  "emit e c = c\<lparr>effects := effects c @ [e]\<rparr>"

definition publishAppNetworkStatus ::
  "extern \<Rightarrow> AppNetworkStatus \<Rightarrow> zedrouterContext \<Rightarrow> zedrouterContext" where
  "publishAppNetworkStatus ext status c =
     (let key = keyOf ext (UUIDandVersion status)
      in emit (PublishApp key status)
           (c\<lparr>pubAppNetworkStatus := (pubAppNetworkStatus c)(key \<mapsto> status)\<rparr>))"

definition unpublishAppNetworkStatus ::
  "extern \<Rightarrow> AppNetworkStatus \<Rightarrow> zedrouterContext \<Rightarrow> zedrouterContext" where
  "unpublishAppNetworkStatus ext status c =
     (let key = keyOf ext (UUIDandVersion status)
      in case pubAppNetworkStatus c key of
           None \<Rightarrow> c
         | Some st \<Rightarrow>
             emit (UnpublishApp key) (c\<lparr>pubAppNetworkStatus := (pubAppNetworkStatus c)(key := None)\<rparr>))"

definition publishNetworkObjectStatus :: "NetworkObjectStatus \<Rightarrow> zedrouterContext \<Rightarrow> zedrouterContext" where
  "publishNetworkObjectStatus status c =
     emit (PublishNet (NetUUID status) status)
       (c\<lparr>pubNetworkObjectStatus := (pubNetworkObjectStatus c)(NetUUID status \<mapsto> status)\<rparr>)"

definition lookupAppNetworkStatus :: "extern \<Rightarrow> zedrouterContext \<Rightarrow> string \<Rightarrow> AppNetworkStatus option" where
  "lookupAppNetworkStatus ext c key =
     (case pubAppNetworkStatus c key of
        None \<Rightarrow> None
      | Some status \<Rightarrow> if keyOf ext (UUIDandVersion status) \<noteq> key then None else Some status)"

text \<open>
  Modelled from the spec: lookupNetworkObjectConfig and lookupNetworkObjectStatus,
  whose bodies are not in the source file: the record of a logical network in the
  table of the subscription, respectively of the publication, if there is one.
\<close>

definition lookupNetworkObjectConfig :: "zedrouterContext \<Rightarrow> string \<Rightarrow> NetworkObjectConfig option" where
  "lookupNetworkObjectConfig c key = subNetworkObjectConfig c key"

definition lookupNetworkObjectStatus :: "zedrouterContext \<Rightarrow> string \<Rightarrow> NetworkObjectStatus option" where
  "lookupNetworkObjectStatus c key = pubNetworkObjectStatus c key"

subsection \<open>Calls and errors\<close>

text \<open>A call whose result the code does not use, or only logs.\<close>

definition run :: "effect \<Rightarrow> frame \<Rightarrow> frame" where
  "run e f = f\<lparr>zctx := emit e (zctx f)\<rparr>"

definition appendError :: "string \<Rightarrow> string \<Rightarrow> string \<Rightarrow> string" where
  "appendError allErrors prefix lasterr = allErrors @ prefix @ '': '' @ lasterr @ [CHR 0x0A, CHR 0x0A]"

definition addError :: "extern \<Rightarrow> string \<Rightarrow> string \<Rightarrow> frame \<Rightarrow> frame" where
  "addError ext tag err f =
     (let status = (stat f)\<lparr>Error := appendError (Error (stat f)) tag err,
                             ErrorTime := timeNow ext (effects (zctx f))\<rparr>
      in \<lparr>zctx = publishAppNetworkStatus ext status (zctx f), stat = status\<rparr>)"

text \<open>
  A call whose error, if it returns one, is recorded with addError under \<open>tag\<close>, the
  handler then going on: \<^verbatim>\<open>if err := call(...); err != nil { addError(...) }\<close>.
\<close>

definition attempt :: "extern \<Rightarrow> string \<Rightarrow> effect \<Rightarrow> (string \<Rightarrow> string) \<Rightarrow> frame \<Rightarrow> frame" where
  "attempt ext tag e msg f =
     (case callErr ext (effects (zctx f)) e of
        None \<Rightarrow> run e f
      | Some err \<Rightarrow> addError ext tag (msg err) (run e f))"

text \<open>A \<^verbatim>\<open>for ... range\<close> loop whose body can return from the handler or end the process.\<close>

fun forEach :: "('a \<Rightarrow> 's \<Rightarrow> 's outcome) \<Rightarrow> 'a list \<Rightarrow> 's \<Rightarrow> 's outcome" where
  "forEach body [] s = Next s"
| "forEach body (x # xs) s =
     (case body x s of
        Next s' \<Rightarrow> forEach body xs s'
      | Return s' \<Rightarrow> Return s'
      | Fatal m \<Rightarrow> Fatal m)"

text \<open>What a handler leaves when it is done: the context, unless the process exited.\<close>

definition finish :: "frame outcome \<Rightarrow> string + zedrouterContext" where
  "finish r = (case r of Fatal m \<Rightarrow> Inl m | Return f \<Rightarrow> Inr (zctx f) | Next f \<Rightarrow> Inr (zctx f))"

definition findBridge :: "extern \<Rightarrow> effect list \<Rightarrow> string \<Rightarrow> string + string \<times> int" where
  "findBridge ext calls bridgeName =
     (case LinkByName ext calls bridgeName of
        (None, err) \<Rightarrow> Inl (''findBridge('' @ bridgeName @ '') failed '' @ err)
      | (Some (BridgeLink hw idx), err) \<Rightarrow> Inr (hw, idx)
      | (Some (OtherLink ty), err) \<Rightarrow> Inl (''findBridge('' @ bridgeName @ '') not a bridge '' @ ty))"

definition maybeRemoveStaleIpsets :: "string list \<Rightarrow> frame \<Rightarrow> frame" where
  "maybeRemoveStaleIpsets staleIpsets f =
     fold (\<lambda>ipset g. run (Call ''ipsetDestroy'' [Str (''ipv6.'' @ ipset)])
                       (run (Call ''ipsetDestroy'' [Str (''ipv4.'' @ ipset)]) g))
          staleIpsets f"

text \<open>
  generateAdditionalInfo: the JSON text handed to the LISP configlets; \<open>None\<close> when
  \<^verbatim>\<open>json.Marshal\<close> fails, where the code calls \<^verbatim>\<open>log.Fatal\<close>.
\<close>

definition generateAdditionalInfo ::
  "extern \<Rightarrow> zedrouterContext \<Rightarrow> AppNetworkStatus \<Rightarrow> OverlayNetworkConfig \<Rightarrow> string option" where
  "generateAdditionalInfo ext c status olConfig =
     (if IsZedmanager status then
        (case AdditionalInfoDevice olConfig of
           None \<Rightarrow> Some []
         | Some d \<Rightarrow> jsonMarshalDevice ext d)
      else
        jsonMarshalApp ext
          \<lparr>DeviceEID = deviceEID c, DeviceIID = deviceIID c, AppDisplayName = DisplayName status,
           AppUnderlayIP = (case additionalInfoDevice c of None \<Rightarrow> [] | Some d \<Rightarrow> UnderlayIP d),
           AppHostname = (case additionalInfoDevice c of None \<Rightarrow> [] | Some d \<Rightarrow> Hostname d)\<rparr>)"

definition lispCallArgs ::
  "bool \<Rightarrow> 32 word \<Rightarrow> string \<Rightarrow> string \<Rightarrow> string list \<Rightarrow> string \<Rightarrow> string \<Rightarrow> string \<Rightarrow> string list
     \<Rightarrow> bool \<Rightarrow> arg list" where
  "lispCallArgs isMgmt iid eid signature uplinks tag olIfname additionalInfo mapservers sdp =
     [Str lispRunDirname, Flag isMgmt, Word32 iid, Str eid, Str signature, Strs uplinks, Str tag,
      Str olIfname, Str additionalInfo, Strs mapservers, Flag sdp]"

text \<open>An entry of \<^verbatim>\<open>make([]types.OverlayNetworkStatus, n)\<close> with its configuration set.\<close>

definition newOverlayNetworkStatus :: "OverlayNetworkConfig \<Rightarrow> OverlayNetworkStatus" where
  "newOverlayNetworkStatus olConfig =
     \<lparr>Bridge = [], Vif = [], Mac = [], BridgeMac = [], BridgeIPAddr = [], HostName = [],
      OverlayNetworkConfig = olConfig\<rparr>"

definition newUnderlayNetworkStatus :: "UnderlayNetworkConfig \<Rightarrow> UnderlayNetworkStatus" where
  "newUnderlayNetworkStatus ulConfig =
     \<lparr>Bridge = [], Vif = [], Mac = [], BridgeMac = [], BridgeIPAddr = [], HostName = [],
      UnderlayNetworkConfig = ulConfig, AssignedIPAddr = []\<rparr>"

section \<open>handleCreate\<close>

text \<open>
  The branch of handleCreate for the management instance (\<^verbatim>\<open>config.IsZedmanager\<close>),
  entered with the status already published as PendingAdd.
\<close>

definition handleCreateMgmt :: "extern \<Rightarrow> AppNetworkConfig \<Rightarrow> int \<Rightarrow> frame \<Rightarrow> frame outcome" where
  "handleCreateMgmt ext config appNum f0 =
     (if length (OverlayNetworkList config) \<noteq> 1 \<or> length (UnderlayNetworkList config) \<noteq> 0 then
        Return (addError ext ''IsZedmanager'' ''Malformed IsZedmanager config; ignored''
                  (f0\<lparr>stat := (stat f0)\<lparr>PendingAdd := False\<rparr>\<rparr>))
      else
        (case OverlayNetworkList config of
           [] \<Rightarrow> Fatal ''index out of range''
         | olConfig # rest \<Rightarrow>
        (let f1 = f0\<lparr>zctx := (zctx f0)\<lparr>separateDataPlane := SeparateDataPlane config\<rparr>\<rparr>;
             olNum = 1;
             olIfname = ifName ''dbo'' olNum appNum;
             f2 = run (Call ''netlink.LinkDel'' [Str olIfname]) f1;
             olIfMac = ''00:16:3e:02:'' @ hex02 olNum @ '':'' @ hex02 appNum
         in case ParseMAC ext olIfMac of
              None \<Rightarrow> Fatal ''ParseMAC failed''
            | Some hw \<Rightarrow>
        (let f3 = attempt ext ''IsZedmanager'' (Call ''netlink.LinkAdd'' [Str olIfname, Str hw])
                    (\<lambda>err. ''LinkAdd on '' @ olIfname @ '' failed: '' @ err) f2;
             f4 = attempt ext ''IsZedmanager'' (Call ''netlink.LinkSetMTU'' [Str olIfname, Num 1280])
                    (\<lambda>err. ''LinkSetMTU on '' @ olIfname @ '' failed: '' @ err) f3;
             f5 = attempt ext ''IsZedmanager'' (Call ''netlink.LinkSetUp'' [Str olIfname])
                    (\<lambda>err. ''LinkSetUp on '' @ olIfname @ '' failed: '' @ err) f4;
             f6 = attempt ext ''IsZedmanager'' (Call ''netlink.LinkSetARPOn'' [Str olIfname])
                    (\<lambda>err. ''LinkSetARPOn on '' @ olIfname @ '' failed: '' @ err) f5;
             eid = EID olConfig
         in case ParseAddr ext (IPString eid @ ''/128'') of
              Inl err \<Rightarrow>
                Return (addError ext ''IsZedmanager'' (''ParseAddr '' @ IPString eid @ '' failed: '' @ err)
                          (f6\<lparr>stat := (stat f6)\<lparr>PendingAdd := False\<rparr>\<rparr>))
            | Inr addr \<Rightarrow>
        (let f7 = attempt ext ''IsZedmanager'' (Call ''netlink.AddrAdd'' [Str olIfname, Str addr])
                    (\<lambda>err. ''AddrAdd '' @ IPString eid @ '' failed: '' @ err) f6;
             index = linkIndex ext (effects (zctx f7)) olIfname
         in case ParseCIDR ext ''fd00::/8'' of
              Inl err \<Rightarrow> Fatal ''ParseCIDR fd00::/8 failed''
            | Inr ipnet \<Rightarrow>
        (case ParseIP ext ''fe80::1'' of
              None \<Rightarrow> Fatal ''ParseIP fe80::1 failed''
            | Some via \<Rightarrow>
        (let f8 = attempt ext ''IsZedmanager'' (Call ''netlink.NeighAdd'' [Num index, Str via, Str hw])
                    (\<lambda>err. ''NeighAdd fe80::1 failed: '' @ err) f7;
             f9 = attempt ext ''IsZedmanager'' (Call ''netlink.NeighSet'' [Num index, Str via, Str hw])
                    (\<lambda>err. ''NeighSet fe80::1 failed: '' @ err) f8;
             f10 = attempt ext ''IsZedmanager''
                     (Call ''netlink.RouteAdd'' [OptStr (Some ipnet), Num index, OptStr (Some via)])
                     (\<lambda>err. ''RouteAdd fd00::/8 failed: '' @ err) f9;
             hostsDirpath = globalRunDirname @ ''/hosts.'' @ olIfname;
             f11 = run (Call ''deleteHostsConfiglet'' [Str hostsDirpath, Flag False]) f10;
             f12 = run (Call ''createHostsConfiglet'' [Str hostsDirpath, Dns (MgmtDnsNameToIPList olConfig)])
                     f11;
             f13 = run (Call ''deleteDefaultIpsetConfiglet'' [Str olIfname, Flag False]) f12;
             f14 = run (Call ''createDefaultIpsetConfiglet''
                          [Str olIfname, Dns (MgmtDnsNameToIPList olConfig), Str (IPString eid)]) f13;
             f15 = attempt ext ''createACL''
                     (Call ''createACLConfiglet''
                        [Str olIfname, Str olIfname, Flag True, Strs (ACLs olConfig), Num 6, Str [], Str []])
                     (\<lambda>err. err) f14;
             f16 = f15\<lparr>zctx := (zctx f15)\<lparr>deviceEID := eid, deviceIID := MgmtIID olConfig,
                                             additionalInfoDevice := AdditionalInfoDevice olConfig\<rparr>\<rparr>
         in case generateAdditionalInfo ext (zctx f16) (stat f16) olConfig of
              None \<Rightarrow> Fatal ''json Marshal AdditionalInfoDevice''
            | Some additionalInfo \<Rightarrow>
        (let f17 = run (Call ''createLispConfiglet''
                          (lispCallArgs (IsZedmanager config) (MgmtIID olConfig) (EID olConfig)
                             (LispSignature olConfig) (DeviceNetworkStatus (zctx f16)) olIfname olIfname
                             additionalInfo (MgmtMapServers olConfig) (separateDataPlane (zctx f16))))
                     f16;
             status = (stat f17)\<lparr>OverlayNetworkList :=
                                     map newOverlayNetworkStatus (OverlayNetworkList config),
                                  PendingAdd := False\<rparr>
         in Return \<lparr>zctx = publishAppNetworkStatus ext status (zctx f17), stat = status\<rparr>))))))))"

text \<open>
  createAndStartLisp. The uplinks handed to the configlet are those of the device
  whose interface is one of the adapters of the service.
\<close>

definition createAndStartLisp ::
  "extern \<Rightarrow> OverlayNetworkConfig \<Rightarrow> NetworkServiceStatus option \<Rightarrow> string \<Rightarrow> frame \<Rightarrow> frame outcome" where
  "createAndStartLisp ext olConfig serviceStatus bridgeName f =
     (case serviceStatus of
        None \<Rightarrow> Next f
      | Some service \<Rightarrow>
          (case generateAdditionalInfo ext (zctx f) (stat f) olConfig of
             None \<Rightarrow> Fatal ''json Marshal AdditionalInfoApp''
           | Some additionalInfo \<Rightarrow>
               (let adapters = getAdapters ext (zctx f) (Adapter service);
                    uplinks = filter (\<lambda>ifname. ifname \<in> set adapters) (DeviceNetworkStatus (zctx f))
                in Next (run (Call ''createLispEidConfiglet''
                                (lispCallArgs False (IID (LispStatus service)) (EID olConfig)
                                   (LispSignature olConfig) uplinks bridgeName bridgeName additionalInfo
                                   (MapServers (LispStatus service)) (separateDataPlane (zctx f))))
                           f))))"

text \<open>
  The three calls that restart dnsmasq on a bridge, made when the ipsets changed and
  the bridge has an address.
\<close>

definition restartDnsmasq ::
  "string \<Rightarrow> string \<Rightarrow> NetworkObjectConfig \<Rightarrow> string \<Rightarrow> string list \<Rightarrow> frame \<Rightarrow> frame" where
  "restartDnsmasq bridgeName bridgeIPAddr netconfig hostsDirpath newIpsets f =
     run (Call ''startDnsmasq'' [Str bridgeName])
       (run (Call ''createDnsmasqConfiglet''
               [Str bridgeName, Str bridgeIPAddr, NetConfig netconfig, Str hostsDirpath, Strs newIpsets])
          (run (Call ''stopDnsmasq'' [Str bridgeName, Flag False]) f))"

text \<open>
  The body of the loop of handleCreate over the overlays, in two parts. attachOverlay
  is the part from the bridge found to the stale ipsets removed: it records the
  bindings in the entry \<open>i\<close> of the status and sets up route, hosts file, ipsets, ACLs
  and dnsmasq on the bridge of the network.
\<close>

definition attachOverlay ::
  "extern \<Rightarrow> AppNetworkConfig \<Rightarrow> int \<Rightarrow> string list \<Rightarrow> nat \<Rightarrow> OverlayNetworkConfig
     \<Rightarrow> NetworkObjectConfig \<Rightarrow> NetworkObjectStatus \<Rightarrow> string \<times> int \<Rightarrow> frame \<Rightarrow> frame" where
  "attachOverlay ext config appNum ipsets i olConfig netconfig netstatus oLink f =
     (let olNum = int i + 1;
          bridgeNum = BridgeNum netstatus;
          bridgeName = BridgeName netstatus;
          vifName = ifName ''nbo'' olNum bridgeNum;
          bridgeMac = fst oLink;
          appMac = (case AppMacAddr olConfig of
                      Some m \<Rightarrow> m
                    | None \<Rightarrow> ''00:16:3e:01:'' @ hex02 olNum @ '':'' @ hex02 appNum);
          olStatus = (OverlayNetworkList (stat f) ! i)
                       \<lparr>Bridge := bridgeName, BridgeMac := bridgeMac, Vif := vifName, Mac := appMac,
                        HostName := keyOf ext (UUIDandVersion config),
                        BridgeIPAddr := NetBridgeIPAddr netstatus\<rparr>;
          f1 = f\<lparr>stat := (stat f)\<lparr>OverlayNetworkList := (OverlayNetworkList (stat f))[i := olStatus]\<rparr>\<rparr>;
          eid = EID olConfig;
          parsed = ParseCIDR ext (IPString eid @ ''/128'');
          ipnet = (case parsed of Inl err \<Rightarrow> None | Inr n \<Rightarrow> Some n);
          f2 = (case parsed of
                  Inl err \<Rightarrow>
                    addError ext ''handleCreate'' (''ParseCIDR '' @ IPString eid @ '' failed: '' @ err) f1
                | Inr n \<Rightarrow> f1);
          f3 = attempt ext ''handleCreate'' (Call ''netlink.RouteAdd'' [OptStr ipnet, Num (snd oLink), OptStr None])
                 (\<lambda>err. ''RouteAdd '' @ IPString eid @ '' failed: '' @ err) f2;
          hostsDirpath = globalRunDirname @ ''/hosts.'' @ bridgeName;
          f4 = run (Call ''addToHostsConfiglet'' [Str hostsDirpath, Str (DisplayName config), Strs [IPString eid]])
                 f3;
          f5 = run (Call ''deleteDefaultIpsetConfiglet'' [Str vifName, Flag False]) f4;
          f6 = run (Call ''createDefaultIpsetConfiglet''
                      [Str vifName, Dns (DnsNameToIPList netstatus), Str (IPString eid)]) f5;
          f7 = attempt ext ''createACL''
                 (Call ''createACLConfiglet''
                    [Str bridgeName, Str vifName, Flag False, Strs (ACLs olConfig), Num 6,
                     Str (BridgeIPAddr olStatus), Str (IPString eid)])
                 (\<lambda>err. err) f6;
          f8 = run (Call ''addhostDnsmasq''
                      [Str bridgeName, Str appMac, Str (IPString eid), Str (UUID (UUIDandVersion config))]) f7;
          diff = diffIpsets ipsets (BridgeIPSets netstatus);
          newIpsets = fst diff;
          staleIpsets = fst (snd diff);
          f9 = (if snd (snd diff) \<and> BridgeIPAddr olStatus \<noteq> [] then
                  restartDnsmasq bridgeName (BridgeIPAddr olStatus) netconfig hostsDirpath newIpsets f8
                else f8);
          netstatus1 = (addVifToBridge ext netstatus vifName)\<lparr>BridgeIPSets := newIpsets\<rparr>;
          f10 = f9\<lparr>zctx := publishNetworkObjectStatus netstatus1 (zctx f9)\<rparr>
      in maybeRemoveStaleIpsets staleIpsets f10)"

text \<open>
  createOverlay is the whole body: the lookups of the network, the bridge, the
  attachment, and the LISP configlets when the network is linked to an activated
  service.
\<close>

definition createOverlay ::
  "extern \<Rightarrow> AppNetworkConfig \<Rightarrow> int \<Rightarrow> string list \<Rightarrow> nat \<times> OverlayNetworkConfig \<Rightarrow> frame
     \<Rightarrow> frame outcome" where
  "createOverlay ext config appNum ipsets entry f =
     (let i = fst entry; olConfig = snd entry
      in case lookupNetworkObjectConfig (zctx f) (Network olConfig) of
           None \<Rightarrow> Return f
         | Some netconfig \<Rightarrow>
     (case lookupNetworkObjectStatus (zctx f) (Network olConfig) of
           None \<Rightarrow>
             Next (addError ext ''lookupNetworkObjectStatus''
                     (''no network status for '' @ Network olConfig) f)
         | Some netstatus \<Rightarrow>
     (case findBridge ext (effects (zctx f)) (BridgeName netstatus) of
           Inl err \<Rightarrow>
             Return (addError ext ''findBridge'' err (f\<lparr>stat := (stat f)\<lparr>PendingAdd := False\<rparr>\<rparr>))
         | Inr oLink \<Rightarrow>
     (if length (OverlayNetworkList (stat f)) \<le> i then Fatal ''index out of range''
      else
     (let f11 = attachOverlay ext config appNum ipsets i olConfig netconfig netstatus oLink f
      in case lookupAppLink ext (zctx f11) (Network olConfig) of
           None \<Rightarrow> Next f11
         | Some serviceStatus \<Rightarrow>
             if \<not> Activated serviceStatus then Next f11
             else createAndStartLisp ext olConfig (Some serviceStatus) (BridgeName netstatus) f11)))))"

text \<open>
  getUlAddrs: the address of the bridge and the address of the application on an
  underlay; \<open>None\<close> where the code calls \<^verbatim>\<open>log.Fatal\<close> on a MAC it cannot parse.
\<close>

definition getUlAddrs ::
  "extern \<Rightarrow> UnderlayNetworkStatus \<Rightarrow> NetworkObjectStatus \<Rightarrow> frame \<Rightarrow> ((string \<times> string) \<times> frame) option" where
  "getUlAddrs ext status netstatus f =
     (let f1 = run (Call ''lookupOrAllocateIPv4'' [Str (NetUUID netstatus), Str (BridgeMac status)]) f;
          bridgeIPAddr = (case lookupOrAllocateIPv4 ext (effects (zctx f)) netstatus (BridgeMac status) of
                            Inl err \<Rightarrow> []
                          | Inr addr \<Rightarrow> addr)
      in case AppIPAddr (UnderlayNetworkConfig status) of
           Some ip \<Rightarrow> Some ((bridgeIPAddr, IPString ip), f1)
         | None \<Rightarrow>
             (case ParseMAC ext (Mac status) of
                None \<Rightarrow> None
              | Some mac \<Rightarrow>
                  (let f2 = run (Call ''lookupOrAllocateIPv4'' [Str (NetUUID netstatus), Str mac]) f1;
                       appIPAddr = (case lookupOrAllocateIPv4 ext (effects (zctx f1)) netstatus mac of
                                      Inl err \<Rightarrow> []
                                    | Inr addr \<Rightarrow> addr)
                   in Some ((bridgeIPAddr, appIPAddr), f2))))"

text \<open>The body of the loop of handleCreate over the underlays.\<close>

definition createUnderlay ::
  "extern \<Rightarrow> AppNetworkConfig \<Rightarrow> int \<Rightarrow> string list \<Rightarrow> nat \<times> UnderlayNetworkConfig \<Rightarrow> frame
     \<Rightarrow> frame outcome" where
  "createUnderlay ext config appNum ipsets entry f =
     (let i = fst entry; ulConfig = snd entry; ulNum = int i + 1
      in case lookupNetworkObjectConfig (zctx f) (Network ulConfig) of
           None \<Rightarrow> Return f
         | Some netconfig \<Rightarrow>
     (case lookupNetworkObjectStatus (zctx f) (Network ulConfig) of
           None \<Rightarrow>
             Next (addError ext ''lookupNetworkObjectStatus'' (''no status for '' @ Network ulConfig) f)
         | Some netstatus \<Rightarrow>
     (let bridgeName = BridgeName netstatus;
          vifName = ifName ''nbu'' ulNum appNum
      in case findBridge ext (effects (zctx f)) bridgeName of
           Inl err \<Rightarrow>
             Return (addError ext ''findBridge'' err (f\<lparr>stat := (stat f)\<lparr>PendingAdd := False\<rparr>\<rparr>))
         | Inr uLink \<Rightarrow>
     (if length (UnderlayNetworkList (stat f)) \<le> i then Fatal ''index out of range''
      else
     (let bridgeMac = fst uLink;
          appMac = (case AppMacAddr ulConfig of
                      Some m \<Rightarrow> m
                    | None \<Rightarrow> ''00:16:3e:00:'' @ hex02 ulNum @ '':'' @ hex02 appNum);
          ulStatus = (UnderlayNetworkList (stat f) ! i)
                       \<lparr>Bridge := bridgeName, BridgeMac := bridgeMac, Vif := vifName, Mac := appMac,
                        HostName := keyOf ext (UUIDandVersion config)\<rparr>;
          f1 = f\<lparr>stat := (stat f)\<lparr>UnderlayNetworkList := (UnderlayNetworkList (stat f))[i := ulStatus]\<rparr>\<rparr>
      in case getUlAddrs ext ulStatus netstatus f1 of
           None \<Rightarrow> Fatal ''ParseMAC failed''
         | Some (addrs, f2) \<Rightarrow>
     (let appIPAddr = snd addrs;
          bridgeIPAddr = (case getBridgeServiceIPv4Addr ext (zctx f2) (Network ulConfig) of
                            Inl err \<Rightarrow> fst addrs
                          | Inr bridgeIP \<Rightarrow> if bridgeIP \<noteq> [] then bridgeIP else fst addrs);
          ulStatus2 = ulStatus\<lparr>BridgeIPAddr := bridgeIPAddr, AssignedIPAddr := appIPAddr\<rparr>;
          f3 = f2\<lparr>stat := (stat f2)\<lparr>UnderlayNetworkList := (UnderlayNetworkList (stat f2))[i := ulStatus2]\<rparr>\<rparr>;
          hostsDirpath = globalRunDirname @ ''/hosts.'' @ bridgeName;
          f4 = (if appIPAddr \<noteq> [] then
                  run (Call ''addToHostsConfiglet'' [Str hostsDirpath, Str (DisplayName config), Strs [appIPAddr]])
                    f3
                else f3);
          f5 = run (Call ''deleteDefaultIpsetConfiglet'' [Str vifName, Flag False]) f4;
          f6 = run (Call ''createDefaultIpsetConfiglet''
                      [Str vifName, Dns (DnsNameToIPList netstatus), Str appIPAddr]) f5;
          f7 = attempt ext ''createACL''
                 (Call ''createACLConfiglet''
                    [Str bridgeName, Str vifName, Flag False, Strs (ACLs ulConfig), Num 4,
                     Str bridgeIPAddr, Str appIPAddr])
                 (\<lambda>err. err) f6;
          f8 = (if appIPAddr \<noteq> [] then
                  run (Call ''addhostDnsmasq''
                         [Str bridgeName, Str appMac, Str appIPAddr, Str (UUID (UUIDandVersion config))]) f7
                else f7);
          diff = diffIpsets ipsets (BridgeIPSets netstatus);
          newIpsets = fst diff;
          staleIpsets = fst (snd diff);
          f9 = (if snd (snd diff) \<and> bridgeIPAddr \<noteq> [] then
                  restartDnsmasq bridgeName bridgeIPAddr netconfig hostsDirpath newIpsets f8
                else f8);
          netstatus1 = (addVifToBridge ext netstatus vifName)\<lparr>BridgeIPSets := newIpsets\<rparr>;
          f10 = f9\<lparr>zctx := publishNetworkObjectStatus netstatus1 (zctx f9)\<rparr>
      in Next (maybeRemoveStaleIpsets staleIpsets f10)))))))"

text \<open>
  The branch of handleCreate for an application instance: the check that every
  network of an overlay or underlay is known, then the two loops.
\<close>

definition allNetworksExist :: "zedrouterContext \<Rightarrow> AppNetworkConfig \<Rightarrow> bool" where
  "allNetworksExist c config =
     (list_all (\<lambda>olConfig. lookupNetworkObjectConfig c (Network olConfig) \<noteq> None)
        (OverlayNetworkList config)
      \<and> list_all (\<lambda>ulConfig. lookupNetworkObjectConfig c (Network ulConfig) \<noteq> None)
          (UnderlayNetworkList config))"

definition handleCreateApp :: "extern \<Rightarrow> AppNetworkConfig \<Rightarrow> int \<Rightarrow> frame \<Rightarrow> frame outcome" where
  "handleCreateApp ext config appNum f0 =
     (if \<not> allNetworksExist (zctx f0) config then
        Return (f0\<lparr>zctx := unpublishAppNetworkStatus ext (stat f0) (zctx f0)\<rparr>)
      else
        (let f1 = f0\<lparr>stat := (stat f0)
                     \<lparr>OverlayNetworkList := map newOverlayNetworkStatus (OverlayNetworkList config),
                      UnderlayNetworkList := map newUnderlayNetworkStatus (UnderlayNetworkList config)\<rparr>\<rparr>;
             ipsets = compileAppInstanceIpsets ext (zctx f1) (OverlayNetworkList config)
                        (UnderlayNetworkList config)
         in case forEach (createOverlay ext config appNum ipsets)
                   (enumerate 0 (OverlayNetworkList config)) f1 of
              Fatal m \<Rightarrow> Fatal m
            | Return f \<Rightarrow> Return f
            | Next f2 \<Rightarrow>
                (case forEach (createUnderlay ext config appNum ipsets)
                        (enumerate 0 (UnderlayNetworkList config)) f2 of
                   Fatal m \<Rightarrow> Fatal m
                 | Return f \<Rightarrow> Return f
                 | Next f3 \<Rightarrow>
                     (let status = (stat f3)\<lparr>PendingAdd := False\<rparr>
                      in Return \<lparr>zctx = publishAppNetworkStatus ext status (zctx f3), stat = status\<rparr>))))"

text \<open>The status handleCreate starts from: marked PendingAdd, every other field zero.\<close>

definition pendingAddStatus :: "AppNetworkConfig \<Rightarrow> int \<Rightarrow> AppNetworkStatus" where
  "pendingAddStatus config appNum =
     \<lparr>UUIDandVersion = UUIDandVersion config, DisplayName = DisplayName config,
      IsZedmanager = IsZedmanager config, SeparateDataPlane = False,
      OverlayNetworkList = [], UnderlayNetworkList = [],
      AppNum = appNum, PendingAdd = True, PendingModify = False, PendingDelete = False,
      OlNum = int (length (OverlayNetworkList config)),
      UlNum = int (length (UnderlayNetworkList config)),
      Error = [], ErrorTime = 0\<rparr>"

definition handleCreate ::
  "extern \<Rightarrow> zedrouterContext \<Rightarrow> string \<Rightarrow> AppNetworkConfig \<Rightarrow> string + zedrouterContext" where
  "handleCreate ext c key config =
     (let alloc = appNumAllocate (UUID (UUIDandVersion config)) (IsZedmanager config) (AllocatedAppNum c);
          appNum = fst alloc;
          status = pendingAddStatus config appNum;
          f = \<lparr>zctx = publishAppNetworkStatus ext status (c\<lparr>AllocatedAppNum := snd alloc\<rparr>), stat = status\<rparr>
      in if IsZedmanager config then finish (handleCreateMgmt ext config appNum f)
         else finish (handleCreateApp ext config appNum f))"

section \<open>handleModify\<close>

text \<open>
  The branch of handleModify for the management instance, entered with PendingModify
  set and published.
\<close>

definition handleModifyMgmt :: "extern \<Rightarrow> AppNetworkConfig \<Rightarrow> int \<Rightarrow> frame \<Rightarrow> frame outcome" where
  "handleModifyMgmt ext config appNum f0 =
     (if SeparateDataPlane config \<noteq> separateDataPlane (zctx f0) then
        Return (addError ext ''handleModify''
                  (''Unsupported: Changing experimental data plane flag on the fly'' @ [CHR 0x0A])
                  (f0\<lparr>stat := (stat f0)\<lparr>PendingModify := False\<rparr>\<rparr>))
      else
        (case OverlayNetworkList config of
           [] \<Rightarrow> Fatal ''index out of range''
         | olConfig # rest \<Rightarrow>
        (case OverlayNetworkList (stat f0) of
           [] \<Rightarrow> Fatal ''index out of range''
         | olStatus # rest' \<Rightarrow>
        (let olNum = 1;
             olIfname = ifName ''dbo'' olNum appNum;
             f1 = attempt ext ''updateACL''
                    (Call ''updateACLConfiglet''
                       [Str olIfname, Str olIfname, Flag True, Strs (ACLs (OverlayNetworkConfig olStatus)),
                        Strs (ACLs olConfig), Num 6, Str [], Str []])
                    (\<lambda>err. err) f0;
             status = (stat f1)\<lparr>PendingModify := False\<rparr>
         in Return \<lparr>zctx = publishAppNetworkStatus ext status (zctx f1), stat = status\<rparr>))))"

text \<open>The body of the loop of handleModify over the overlays of the configuration.\<close>

definition modifyOverlay ::
  "extern \<Rightarrow> string list \<Rightarrow> nat \<times> OverlayNetworkConfig \<Rightarrow> frame \<Rightarrow> frame outcome" where
  "modifyOverlay ext ipsets entry f =
     (let i = fst entry; olConfig = snd entry
      in if length (OverlayNetworkList (stat f)) \<le> i then Next f
         else
     (let olStatus = OverlayNetworkList (stat f) ! i;
          bridgeName = Bridge olStatus
      in case lookupNetworkObjectConfig (zctx f) (Network olConfig) of
           None \<Rightarrow>
             Next (addError ext ''lookupNetworkObjectConfig''
                     (''no network config for '' @ Network olConfig) f)
         | Some netconfig \<Rightarrow>
     (case lookupNetworkObjectStatus (zctx f) (Network olConfig) of
           None \<Rightarrow>
             Next (addError ext ''lookupNetworkObjectStatus''
                     (''no network status for '' @ Network olConfig) f)
         | Some netstatus \<Rightarrow>
     (let f1 = attempt ext ''updateACL''
                 (Call ''updateACLConfiglet''
                    [Str bridgeName, Str (Vif olStatus), Flag False, Strs (ACLs (OverlayNetworkConfig olStatus)),
                     Strs (ACLs olConfig), Num 6, Str (BridgeIPAddr olStatus), Str (IPString (EID olConfig))])
                 (\<lambda>err. err) f;
          diff = diffIpsets ipsets (BridgeIPSets netstatus);
          newIpsets = fst diff;
          staleIpsets = fst (snd diff);
          f2 = (if snd (snd diff) \<and> BridgeIPAddr olStatus \<noteq> [] then
                  restartDnsmasq bridgeName (BridgeIPAddr olStatus) netconfig
                    (globalRunDirname @ ''/hosts.'' @ bridgeName) newIpsets f1
                else f1);
          netstatus1 = (removeVifFromBridge ext netstatus (Vif olStatus))\<lparr>BridgeIPSets := newIpsets\<rparr>;
          f3 = f2\<lparr>zctx := publishNetworkObjectStatus netstatus1 (zctx f2)\<rparr>;
          f4 = maybeRemoveStaleIpsets staleIpsets f3
      in case lookupAppLink ext (zctx f4) (Network olConfig) of
           None \<Rightarrow> Next f4
         | Some serviceStatus \<Rightarrow>
             (case generateAdditionalInfo ext (zctx f4) (stat f4) olConfig of
                None \<Rightarrow> Fatal ''json Marshal AdditionalInfoApp''
              | Some additionalInfo \<Rightarrow>
                  Next (run (Call ''updateLispConfiglet''
                               (lispCallArgs False (IID (LispStatus serviceStatus)) (EID olConfig)
                                  (LispSignature olConfig) (DeviceNetworkStatus (zctx f4)) bridgeName
                                  bridgeName additionalInfo (MapServers (LispStatus serviceStatus))
                                  (separateDataPlane (zctx f4))))
                          f4))))))"

text \<open>The body of the loop of handleModify over the underlays of the configuration.\<close>

definition modifyUnderlay ::
  "extern \<Rightarrow> string list \<Rightarrow> nat \<times> UnderlayNetworkConfig \<Rightarrow> frame \<Rightarrow> frame outcome" where
  "modifyUnderlay ext ipsets entry f =
     (let i = fst entry; ulConfig = snd entry
      in if length (UnderlayNetworkList (stat f)) \<le> i then Next f
         else
     (let ulStatus = UnderlayNetworkList (stat f) ! i;
          bridgeName = Bridge ulStatus;
          appIPAddr = AssignedIPAddr ulStatus
      in case lookupNetworkObjectConfig (zctx f) (Network ulConfig) of
           None \<Rightarrow>
             Next (addError ext ''lookupNetworkObjectConfig''
                     (''no network config for '' @ Network ulConfig) f)
         | Some netconfig \<Rightarrow>
     (case lookupNetworkObjectStatus (zctx f) (Network ulConfig) of
           None \<Rightarrow>
             Next (addError ext ''lookupNetworkObjectStatus''
                     (''no network status for '' @ Network ulConfig) f)
         | Some netstatus \<Rightarrow>
     (let f1 = attempt ext ''updateACL''
                 (Call ''updateACLConfiglet''
                    [Str bridgeName, Str (Vif ulStatus), Flag False, Strs (ACLs (UnderlayNetworkConfig ulStatus)),
                     Strs (ACLs ulConfig), Num 4, Str (BridgeIPAddr ulStatus), Str appIPAddr])
                 (\<lambda>err. err) f;
          diff = diffIpsets ipsets (BridgeIPSets netstatus);
          newIpsets = fst diff;
          staleIpsets = fst (snd diff);
          f2 = (if snd (snd diff) \<and> BridgeIPAddr ulStatus \<noteq> [] then
                  restartDnsmasq bridgeName (BridgeIPAddr ulStatus) netconfig
                    (globalRunDirname @ ''/hosts.'' @ bridgeName) newIpsets f1
                else f1);
          netstatus1 = (removeVifFromBridge ext netstatus (Vif ulStatus))\<lparr>BridgeIPSets := newIpsets\<rparr>;
          f3 = f2\<lparr>zctx := publishNetworkObjectStatus netstatus1 (zctx f2)\<rparr>
      in Next (maybeRemoveStaleIpsets staleIpsets f3)))))"

text \<open>
  The branch of handleModify for an application instance: the two loops, then the
  lists of the status are made anew from the configuration and the status published.
\<close>

definition handleModifyApp :: "extern \<Rightarrow> AppNetworkConfig \<Rightarrow> frame \<Rightarrow> frame outcome" where
  "handleModifyApp ext config f0 =
     (let ipsets = compileAppInstanceIpsets ext (zctx f0) (OverlayNetworkList config)
                     (UnderlayNetworkList config)
      in case forEach (modifyOverlay ext ipsets) (enumerate 0 (OverlayNetworkList config)) f0 of
           Fatal m \<Rightarrow> Fatal m
         | Return f \<Rightarrow> Return f
         | Next f1 \<Rightarrow>
             (case forEach (modifyUnderlay ext ipsets) (enumerate 0 (UnderlayNetworkList config)) f1 of
                Fatal m \<Rightarrow> Fatal m
              | Return f \<Rightarrow> Return f
              | Next f2 \<Rightarrow>
                  (let status = (stat f2)
                         \<lparr>OverlayNetworkList := map newOverlayNetworkStatus (OverlayNetworkList config),
                          UnderlayNetworkList := map newUnderlayNetworkStatus (UnderlayNetworkList config),
                          PendingModify := False\<rparr>
                   in Return \<lparr>zctx = publishAppNetworkStatus ext status (zctx f2), stat = status\<rparr>)))"

text \<open>The rejection of an unsupported change: PendingModify is cleared and the error added.\<close>

definition rejectModify :: "extern \<Rightarrow> string \<Rightarrow> frame \<Rightarrow> string + zedrouterContext" where
  "rejectModify ext errStr f =
     finish (Return (addError ext ''handleModify'' errStr (f\<lparr>stat := (stat f)\<lparr>PendingModify := False\<rparr>\<rparr>)))"

definition handleModify ::
  "extern \<Rightarrow> zedrouterContext \<Rightarrow> string \<Rightarrow> AppNetworkConfig \<Rightarrow> AppNetworkStatus
     \<Rightarrow> string + zedrouterContext" where
  "handleModify ext c key config status =
     (let appNum = AppNum status;
          f = \<lparr>zctx = c, stat = status\<rparr>
      in if IsZedmanager config \<noteq> IsZedmanager status then
           rejectModify ext (''Unsupported: IsZedmanager changed for '' @ showUV (UUIDandVersion config)) f
         else if int (length (OverlayNetworkList config)) \<noteq> OlNum status then
           rejectModify ext
             (''Unsupported: Changed number of overlays for '' @ showUV (UUIDandVersion config)) f
         else if int (length (UnderlayNetworkList config)) \<noteq> UlNum status then
           rejectModify ext
             (''Unsupported: Changed number of underlays for '' @ showUV (UUIDandVersion config)) f
         else
           (let status1 = status\<lparr>SeparateDataPlane := separateDataPlane c, PendingModify := True,
                                  UUIDandVersion := UUIDandVersion config\<rparr>;
                f1 = \<lparr>zctx = publishAppNetworkStatus ext status1 c, stat = status1\<rparr>
            in if IsZedmanager config then finish (handleModifyMgmt ext config appNum f1)
               else finish (handleModifyApp ext config f1)))"

section \<open>handleDelete\<close>

text \<open>
  The branch of handleDelete for the management instance, entered with PendingDelete
  set and published.
\<close>

definition handleDeleteMgmt :: "extern \<Rightarrow> int \<Rightarrow> frame \<Rightarrow> frame outcome" where
  "handleDeleteMgmt ext appNum f0 =
     (if length (OverlayNetworkList (stat f0)) \<noteq> 1 \<or> length (UnderlayNetworkList (stat f0)) \<noteq> 0 then
        Return (addError ext ''handleDelete'' ''Malformed IsZedmanager status; ignored''
                  (f0\<lparr>stat := (stat f0)\<lparr>PendingDelete := False\<rparr>\<rparr>))
      else
        (case OverlayNetworkList (stat f0) of
           [] \<Rightarrow> Fatal ''index out of range''
         | olStatus # rest \<Rightarrow>
        (let f1 = f0\<lparr>zctx := (zctx f0)\<lparr>deviceEID := [], deviceIID := 0, additionalInfoDevice := None\<rparr>\<rparr>;
             olNum = 1;
             olIfname = ifName ''dbo'' olNum appNum;
             eid = EID (OverlayNetworkConfig olStatus)
         in case ParseAddr ext (IPString eid @ ''/128'') of
              Inl err \<Rightarrow>
                Return (addError ext ''handleDelete'' (''ParseAddr '' @ IPString eid @ '' failed: '' @ err)
                          (f1\<lparr>stat := (stat f1)\<lparr>PendingDelete := False\<rparr>\<rparr>))
            | Inr addr \<Rightarrow>
        (let f2 = attempt ext ''handleDelete'' (Call ''netlink.AddrDel'' [Str olIfname, Str addr])
                    (\<lambda>err. ''AddrDel '' @ IPString eid @ '' failed: '' @ err) f1;
             index = linkIndex ext (effects (zctx f2)) olIfname
         in case ParseCIDR ext ''fd00::/8'' of
              Inl err \<Rightarrow> Fatal ''ParseCIDR fd00::/8 failed''
            | Inr ipnet \<Rightarrow>
        (case ParseIP ext ''fe80::1'' of
              None \<Rightarrow> Fatal ''ParseIP fe80::1 failed''
            | Some via \<Rightarrow>
        (let f3 = attempt ext ''handleDelete''
                    (Call ''netlink.RouteDel'' [OptStr (Some ipnet), Num index, OptStr (Some via)])
                    (\<lambda>err. ''RouteDel fd00::/8 failed: '' @ err) f2;
             f4 = attempt ext ''handleDelete'' (Call ''netlink.NeighDel'' [Num index, Str via])
                    (\<lambda>err. ''NeighDel fe80::1 failed: '' @ err) f3;
             f5 = run (Call ''netlink.LinkDel'' [Str olIfname]) f4;
             hostsDirpath = globalRunDirname @ ''/hosts.'' @ olIfname;
             f6 = run (Call ''deleteHostsConfiglet'' [Str hostsDirpath, Flag True]) f5;
             f7 = run (Call ''deleteDefaultIpsetConfiglet'' [Str olIfname, Flag True]) f6;
             f8 = attempt ext ''deleteACL''
                    (Call ''deleteACLConfiglet''
                       [Str olIfname, Str olIfname, Flag True, Strs (ACLs (OverlayNetworkConfig olStatus)),
                        Num 6, Str [], Str []])
                    (\<lambda>err. err) f7;
             f9 = run (Call ''deleteLispConfiglet''
                         [Str lispRunDirname, Flag True, Word32 (MgmtIID (OverlayNetworkConfig olStatus)),
                          Str (EID (OverlayNetworkConfig olStatus)), Strs (DeviceNetworkStatus (zctx f8)),
                          Flag (separateDataPlane (zctx f8))])
                    f8;
             status = (stat f9)\<lparr>PendingDelete := False\<rparr>;
             c1 = publishAppNetworkStatus ext status (zctx f9);
             c2 = unpublishAppNetworkStatus ext status c1
         in Return \<lparr>zctx = c2\<lparr>AllocatedAppNum := appNumFree (UUID (UUIDandVersion status))
                                                       (AllocatedAppNum c2)\<rparr>,
                    stat = status\<rparr>))))))"

text \<open>The body of the loop of handleDelete over the overlay numbers 1 to OlNum.\<close>

definition deleteOverlay :: "extern \<Rightarrow> string list \<Rightarrow> int \<Rightarrow> frame \<Rightarrow> frame outcome" where
  "deleteOverlay ext ipsets olNum f =
     (if int (length (OverlayNetworkList (stat f))) < olNum then Next f
      else
     (let olStatus = OverlayNetworkList (stat f) ! nat (olNum - 1);
          olConfig = OverlayNetworkConfig olStatus;
          bridgeName = Bridge olStatus
      in case lookupNetworkObjectConfig (zctx f) (Network olConfig) of
           None \<Rightarrow>
             Next (addError ext ''lookupNetworkObjectStatus''
                     (''no network config for '' @ Network olConfig) f)
         | Some netconfig \<Rightarrow>
     (case lookupNetworkObjectStatus (zctx f) (Network olConfig) of
           None \<Rightarrow>
             Next (addError ext ''lookupNetworkObjectStatus''
                     (''no network status for '' @ Network olConfig) f)
         | Some netstatus \<Rightarrow>
     (let f1 = attempt ext ''deleteACL''
                 (Call ''deleteACLConfiglet''
                    [Str bridgeName, Str (Vif olStatus), Flag False, Strs (ACLs olConfig), Num 6,
                     Str (BridgeIPAddr olStatus), Str (IPString (EID olConfig))])
                 (\<lambda>err. err) f;
          hostsDirpath = globalRunDirname @ ''/hosts.'' @ bridgeName;
          f2 = run (Call ''removeFromHostsConfiglet'' [Str hostsDirpath, Str (DisplayName (stat f1))]) f1;
          f3 = run (Call ''deleteDefaultIpsetConfiglet'' [Str (Vif olStatus), Flag True]) f2;
          diff = diffIpsets ipsets (BridgeIPSets netstatus);
          newIpsets = fst diff;
          staleIpsets = fst (snd diff);
          f4 = (if snd (snd diff) \<and> BridgeIPAddr olStatus \<noteq> [] then
                  restartDnsmasq bridgeName (BridgeIPAddr olStatus) netconfig hostsDirpath newIpsets f3
                else f3);
          f5 = maybeRemoveStaleIpsets staleIpsets f4
      in case lookupAppLink ext (zctx f5) (Network olConfig) of
           None \<Rightarrow> Next f5
         | Some serviceStatus \<Rightarrow>
             Next (run (Call ''deleteLispConfiglet''
                          [Str lispRunDirname, Flag False, Word32 (IID (LispStatus serviceStatus)),
                           Str (EID olConfig), Strs (DeviceNetworkStatus (zctx f5)),
                           Flag (separateDataPlane (zctx f5))])
                     f5)))))"

text \<open>The body of the loop of handleDelete over the underlay numbers 1 to UlNum.\<close>

definition deleteUnderlay :: "extern \<Rightarrow> string list \<Rightarrow> int \<Rightarrow> frame \<Rightarrow> frame outcome" where
  "deleteUnderlay ext ipsets ulNum f =
     (if int (length (UnderlayNetworkList (stat f))) < ulNum then Next f
      else
     (let ulStatus = UnderlayNetworkList (stat f) ! nat (ulNum - 1);
          ulConfig = UnderlayNetworkConfig ulStatus;
          bridgeName = Bridge ulStatus
      in case lookupNetworkObjectConfig (zctx f) (Network ulConfig) of
           None \<Rightarrow>
             Next (addError ext ''lookupNetworkObjectConfig''
                     (''no network config for '' @ Network ulConfig) f)
         | Some netconfig \<Rightarrow>
     (case lookupNetworkObjectStatus (zctx f) (Network ulConfig) of
           None \<Rightarrow>
             Next (addError ext ''lookupNetworkObjectStatus''
                     (''no network status for '' @ Network ulConfig) f)
         | Some netstatus \<Rightarrow>
     (case ParseMAC ext (Mac ulStatus) of
           None \<Rightarrow> Fatal ''ParseMAC failed''
         | Some mac \<Rightarrow>
     (let f1 = attempt ext ''releaseIPv4'' (Call ''releaseIPv4'' [Str (NetUUID netstatus), Str mac])
                 (\<lambda>err. err) f;
          appMac = Mac ulStatus;
          appIPAddr = AssignedIPAddr ulStatus;
          f2 = run (Call ''removehostDnsmasq'' [Str bridgeName, Str appMac, Str appIPAddr]) f1;
          f3 = attempt ext ''deleteACL''
                 (Call ''deleteACLConfiglet''
                    [Str bridgeName, Str (Vif ulStatus), Flag False, Strs (ACLs ulConfig), Num 4,
                     Str (BridgeIPAddr ulStatus), Str appIPAddr])
                 (\<lambda>err. err) f2;
          hostsDirpath = globalRunDirname @ ''/hosts.'' @ bridgeName;
          f4 = run (Call ''removeFromHostsConfiglet'' [Str hostsDirpath, Str (DisplayName (stat f3))]) f3;
          diff = diffIpsets ipsets (BridgeIPSets netstatus);
          newIpsets = fst diff;
          staleIpsets = fst (snd diff);
          f5 = (if snd (snd diff) \<and> BridgeIPAddr ulStatus \<noteq> [] then
                  restartDnsmasq bridgeName (BridgeIPAddr ulStatus) netconfig hostsDirpath newIpsets f4
                else f4)
      in Next (maybeRemoveStaleIpsets staleIpsets f5))))))"

text \<open>
  The branch of handleDelete for an application instance. The number is freed and
  the status removed last.
\<close>

definition handleDeleteApp :: "extern \<Rightarrow> int \<Rightarrow> int \<Rightarrow> frame \<Rightarrow> frame outcome" where
  "handleDeleteApp ext maxOlNum maxUlNum f0 =
     (let ipsets = compileOldAppInstanceIpsets ext (zctx f0) (OverlayNetworkList (stat f0))
                     (UnderlayNetworkList (stat f0)) (keyOf ext (UUIDandVersion (stat f0)))
      in case forEach (deleteOverlay ext ipsets) [1..maxOlNum] f0 of
           Fatal m \<Rightarrow> Fatal m
         | Return f \<Rightarrow> Return f
         | Next f1 \<Rightarrow>
             (case forEach (deleteUnderlay ext ipsets) [1..maxUlNum] f1 of
                Fatal m \<Rightarrow> Fatal m
              | Return f \<Rightarrow> Return f
              | Next f2 \<Rightarrow>
                  (let status = (stat f2)\<lparr>PendingDelete := False\<rparr>;
                       c1 = publishAppNetworkStatus ext status (zctx f2);
                       c2 = unpublishAppNetworkStatus ext status c1
                   in Return \<lparr>zctx = c2\<lparr>AllocatedAppNum := appNumFree (UUID (UUIDandVersion status))
                                                                 (AllocatedAppNum c2)\<rparr>,
                              stat = status\<rparr>)))"

definition handleDelete ::
  "extern \<Rightarrow> zedrouterContext \<Rightarrow> string \<Rightarrow> AppNetworkStatus \<Rightarrow> string + zedrouterContext" where
  "handleDelete ext c key status =
     (let appNum = AppNum status;
          maxOlNum = OlNum status;
          maxUlNum = UlNum status;
          status1 = status\<lparr>PendingDelete := True\<rparr>;
          f = \<lparr>zctx = publishAppNetworkStatus ext status1 c, stat = status1\<rparr>
      in if IsZedmanager status then finish (handleDeleteMgmt ext appNum f)
         else finish (handleDeleteApp ext maxOlNum maxUlNum f))"

section \<open>The wrappers\<close>

text \<open>handleAppNetworkConfigModify decides whether the event is a create or a modify.\<close>

definition handleAppNetworkConfigModify ::
  "extern \<Rightarrow> zedrouterContext \<Rightarrow> string \<Rightarrow> AppNetworkConfig \<Rightarrow> string + zedrouterContext" where
  "handleAppNetworkConfigModify ext c key config =
     (if keyOf ext (UUIDandVersion config) \<noteq> key then Inr c
      else
        (case lookupAppNetworkStatus ext c key of
           None \<Rightarrow> handleCreate ext c key config
         | Some status \<Rightarrow> handleModify ext c key config status))"

text \<open>
  handleAppNetworkConfigDelete is handed the deleted configuration as well
  (\<^verbatim>\<open>configArg\<close>) and never reads it: only the key of the event decides.
\<close>

definition handleAppNetworkConfigDelete ::
  "extern \<Rightarrow> zedrouterContext \<Rightarrow> string \<Rightarrow> AppNetworkConfig \<Rightarrow> string + zedrouterContext" where
  "handleAppNetworkConfigDelete ext c key configArg =
     (case lookupAppNetworkStatus ext c key of
        None \<Rightarrow> Inr c
      | Some status \<Rightarrow> handleDelete ext c key status)"

section \<open>Concrete inputs\<close>

text \<open>
  Collaborators every call of which succeeds, with the UUID as the key, and the context
  of a freshly started reconciler; the theorems below are instantiated on them.
\<close>

definition ext0 :: extern where
  "ext0 = \<lparr>keyOf = UUID, callErr = (\<lambda>calls e. None), timeNow = length,
           ParseMAC = Some, ParseAddr = Inr, ParseCIDR = Inr, ParseIP = Some,
           LinkByName = (\<lambda>calls n. (Some (BridgeLink ''02:00:00:00:00:01'' 7), [])),
           linkIndex = (\<lambda>calls n. 3),
           jsonMarshalDevice = (\<lambda>d. Some (Hostname d)),
           jsonMarshalApp = (\<lambda>a. Some (DeviceEID a)),
           lookupOrAllocateIPv4 = (\<lambda>calls n mac. Inr ''10.1.0.2''),
           getBridgeServiceIPv4Addr = (\<lambda>c n. Inr []),
           compileAppInstanceIpsets = (\<lambda>c ols uls. []),
           compileOldAppInstanceIpsets = (\<lambda>c ols uls k. []),
           addVifToBridge = (\<lambda>s v. s), removeVifFromBridge = (\<lambda>s v. s),
           getAdapters = (\<lambda>c a. []), lookupAppLink = (\<lambda>c n. None)\<rparr>"

definition ctx0 :: zedrouterContext where
  "ctx0 = \<lparr>separateDataPlane = False, subNetworkObjectConfig = Map.empty,
           pubNetworkObjectStatus = Map.empty, pubNetworkServiceStatus = [],
           pubAppNetworkStatus = Map.empty, DeviceNetworkStatus = [],
           deviceEID = [], deviceIID = 0, additionalInfoDevice = None,
           AllocatedAppNum = [], effects = []\<rparr>"

text \<open>A logical network \<open>n1\<close> with its bridge, and the context that knows it.\<close>

definition net1 :: NetworkObjectStatus where
  "net1 = \<lparr>NetUUID = ''n1'', BridgeNum = 5, BridgeName = ''bn5'', NetBridgeIPAddr = ''10.1.0.1'',
           DnsNameToIPList = [], BridgeIPSets = []\<rparr>"

definition ctxN :: zedrouterContext where
  "ctxN = ctx0\<lparr>subNetworkObjectConfig := [''n1'' \<mapsto> \<lparr>NetworkKey = ''n1''\<rparr>],
               pubNetworkObjectStatus := [''n1'' \<mapsto> net1]\<rparr>"

text \<open>An application instance \<open>u1\<close> with one underlay on \<open>n1\<close>.\<close>

definition ulCfg1 :: UnderlayNetworkConfig where
  "ulCfg1 = \<lparr>Network = ''n1'', ACLs = [], AppMacAddr = None, AppIPAddr = None\<rparr>"

definition cfgU :: AppNetworkConfig where
  "cfgU = \<lparr>UUIDandVersion = \<lparr>UUID = ''u1'', Version = ''1''\<rparr>, DisplayName = ''app1'',
           IsZedmanager = False, SeparateDataPlane = False,
           OverlayNetworkList = [], UnderlayNetworkList = [ulCfg1]\<rparr>"

text \<open>The status the reconciler publishes for \<open>u1\<close> when its create has completed.\<close>

definition stU :: AppNetworkStatus where
  "stU = \<lparr>UUIDandVersion = \<lparr>UUID = ''u1'', Version = ''1''\<rparr>, DisplayName = ''app1'',
          IsZedmanager = False, SeparateDataPlane = False, OverlayNetworkList = [],
          UnderlayNetworkList =
            [\<lparr>Bridge = ''bn5'', Vif = ''nbu1x0'', Mac = ''00:16:3e:00:01:00'',
              BridgeMac = ''02:00:00:00:00:01'', BridgeIPAddr = ''10.1.0.2'', HostName = ''u1'',
              UnderlayNetworkConfig = ulCfg1, AssignedIPAddr = ''10.1.0.2''\<rparr>],
          AppNum = 0, PendingAdd = False, PendingModify = False, PendingDelete = False,
          OlNum = 0, UlNum = 1, Error = [], ErrorTime = 0\<rparr>"

section \<open>Events, observations and invariants\<close>

text \<open>
  The events the main loop hands to the reconciler: a configuration of an application
  instance arrives or changes, a configuration is deleted. Between them the handlers of
  the logical networks, which are in other files, change the tables of network
  configurations and statuses; NetworksChanged stands for any such change.
\<close>

datatype event =
    ConfigModify string AppNetworkConfig
  | ConfigDelete string AppNetworkConfig
  | NetworksChanged "string \<rightharpoonup> NetworkObjectConfig" "string \<rightharpoonup> NetworkObjectStatus"

fun dispatch :: "extern \<Rightarrow> zedrouterContext \<Rightarrow> event \<Rightarrow> string + zedrouterContext" where
  "dispatch ext c (ConfigModify key config) = handleAppNetworkConfigModify ext c key config"
| "dispatch ext c (ConfigDelete key config) = handleAppNetworkConfigDelete ext c key config"
| "dispatch ext c (NetworksChanged configs statuses) =
     Inr (c\<lparr>subNetworkObjectConfig := configs, pubNetworkObjectStatus := statuses\<rparr>)"

text \<open>Each handler runs to completion before the next event; \<^verbatim>\<open>log.Fatal\<close> ends the run.\<close>

fun processEvents :: "extern \<Rightarrow> event list \<Rightarrow> zedrouterContext \<Rightarrow> string + zedrouterContext" where
  "processEvents ext [] c = Inr c"
| "processEvents ext (ev # evs) c =
     (case dispatch ext c ev of
        Inl m \<Rightarrow> Inl m
      | Inr c' \<Rightarrow> processEvents ext evs c')"


text \<open>The device identity: the three package-level variables.\<close>

definition deviceIdentity :: "zedrouterContext \<Rightarrow> string \<times> 32 word \<times> AdditionalInfoDevice option" where
  "deviceIdentity c = (deviceEID c, deviceIID c, additionalInfoDevice c)"

definition noIdentity :: "string \<times> 32 word \<times> AdditionalInfoDevice option" where
  "noIdentity = ([], 0, None)"


definition atMostOnePending :: "AppNetworkStatus \<Rightarrow> bool" where
  "atMostOnePending st =
     (\<not> (PendingAdd st \<and> PendingModify st) \<and> \<not> (PendingAdd st \<and> PendingDelete st)
      \<and> \<not> (PendingModify st \<and> PendingDelete st))"

text \<open>The statuses published by the calls of a list, in order.\<close>

fun published :: "effect list \<Rightarrow> AppNetworkStatus list" where
  "published [] = []"
| "published (PublishApp k st # es) = st # published es"
| "published (e # es) = published es"

text \<open>What a handler leaves published under a key, and what it leaves allocated.\<close>

definition statusAfter :: "string \<Rightarrow> string + zedrouterContext \<Rightarrow> AppNetworkStatus option" where
  "statusAfter key r = (case r of Inl m \<Rightarrow> None | Inr c \<Rightarrow> pubAppNetworkStatus c key)"

definition allocatedAfter :: "string + zedrouterContext \<Rightarrow> (string \<times> bool \<times> int) list option" where
  "allocatedAfter r = (case r of Inl m \<Rightarrow> None | Inr c \<Rightarrow> Some (AllocatedAppNum c))"

definition callsAfter :: "string + zedrouterContext \<Rightarrow> effect list" where
  "callsAfter r = (case r of Inl m \<Rightarrow> [] | Inr c \<Rightarrow> effects c)"

definition identityAfter ::
  "string + zedrouterContext \<Rightarrow> (string \<times> 32 word \<times> AdditionalInfoDevice option) option" where
  "identityAfter r = (case r of Inl m \<Rightarrow> None | Inr c \<Rightarrow> Some (deviceIdentity c))"

text \<open>
  The invariant of a handler at work on the status of one key: which of the pending
  flags the handler may have set (its phase), and what it leaves as it found it. The
  scope holds the key, the management flag, the phase, and the tables of statuses and
  of network configurations the handler was entered with.
\<close>

datatype phase = Adding | Modifying | Deleting

definition within :: "phase \<Rightarrow> AppNetworkStatus \<Rightarrow> bool" where
  "within ph st =
     ((PendingAdd st \<longrightarrow> ph = Adding) \<and> (PendingModify st \<longrightarrow> ph = Modifying)
      \<and> (PendingDelete st \<longrightarrow> ph = Deleting))"

record scope =
  sKey :: string
  sMgmt :: bool
  sPhase :: phase
  sPub :: "string \<rightharpoonup> AppNetworkStatus"
  sSub :: "string \<rightharpoonup> NetworkObjectConfig"

definition statInv :: "extern \<Rightarrow> scope \<Rightarrow> AppNetworkStatus \<Rightarrow> bool" where
  "statInv ext sc st =
     (keyOf ext (UUIDandVersion st) = sKey sc \<and> IsZedmanager st = sMgmt sc \<and> within (sPhase sc) st)"

definition ctxInv :: "extern \<Rightarrow> scope \<Rightarrow> zedrouterContext \<Rightarrow> bool" where
  "ctxInv ext sc c =
     ((\<forall>k. k \<noteq> sKey sc \<longrightarrow> pubAppNetworkStatus c k = sPub sc k)
      \<and> (\<forall>st. pubAppNetworkStatus c (sKey sc) = Some st \<longrightarrow>
             IsZedmanager st = sMgmt sc \<and> keyOf ext (UUIDandVersion st) = sKey sc)
      \<and> list_all atMostOnePending (published (effects c))
      \<and> subNetworkObjectConfig c = sSub sc)"

definition frameInv :: "extern \<Rightarrow> scope \<Rightarrow> frame \<Rightarrow> bool" where
  "frameInv ext sc f = (statInv ext sc (stat f) \<and> ctxInv ext sc (zctx f))"



section \<open>More concrete inputs\<close>

text \<open>
  The management instance \<open>m1\<close> with its one overlay, the status its create leaves
  published, and the context after that create.
\<close>

definition olCfgM :: OverlayNetworkConfig where
  "olCfgM = \<lparr>Network = [], ACLs = [], AppMacAddr = None, EID = ''fd00::1'', LispSignature = ''sig'',
             MgmtIID = 7, MgmtMapServers = [], MgmtDnsNameToIPList = [],
             AdditionalInfoDevice = Some \<lparr>UnderlayIP = ''192.0.2.1'', Hostname = ''dev''\<rparr>\<rparr>"

definition cfgM :: AppNetworkConfig where
  "cfgM = \<lparr>UUIDandVersion = \<lparr>UUID = ''m1'', Version = ''1''\<rparr>, DisplayName = ''zedmanager'',
           IsZedmanager = True, SeparateDataPlane = True,
           OverlayNetworkList = [olCfgM], UnderlayNetworkList = []\<rparr>"

definition stM :: AppNetworkStatus where
  "stM = \<lparr>UUIDandVersion = \<lparr>UUID = ''m1'', Version = ''1''\<rparr>, DisplayName = ''zedmanager'',
          IsZedmanager = True, SeparateDataPlane = False,
          OverlayNetworkList = [newOverlayNetworkStatus olCfgM], UnderlayNetworkList = [],
          AppNum = 0, PendingAdd = False, PendingModify = False, PendingDelete = False,
          OlNum = 1, UlNum = 0, Error = [], ErrorTime = 0\<rparr>"

definition ctxM :: zedrouterContext where
  "ctxM = ctx0\<lparr>separateDataPlane := True, pubAppNetworkStatus := [''m1'' \<mapsto> stM],
               deviceEID := ''fd00::1'', deviceIID := 7,
               additionalInfoDevice := Some \<lparr>UnderlayIP = ''192.0.2.1'', Hostname = ''dev''\<rparr>,
               AllocatedAppNum := [(''m1'', True, 0)]\<rparr>"

text \<open>A configuration of \<open>m1\<close> that changes the data plane flag, as version 2.\<close>

definition cfgM2 :: AppNetworkConfig where
  "cfgM2 = cfgM\<lparr>SeparateDataPlane := False, UUIDandVersion := \<lparr>UUID = ''m1'', Version = ''2''\<rparr>\<rparr>"

text \<open>A malformed management configuration: two overlays.\<close>

definition cfgBad :: AppNetworkConfig where
  "cfgBad = cfgM\<lparr>OverlayNetworkList := [olCfgM, olCfgM]\<rparr>"

text \<open>The context after the create of \<open>u1\<close> on the network \<open>n1\<close>.\<close>

definition ctxU :: zedrouterContext where
  "ctxU = ctxN\<lparr>pubAppNetworkStatus := [''u1'' \<mapsto> stU], AllocatedAppNum := [(''u1'', False, 0)]\<rparr>"

text \<open>A context that has the configuration of the network \<open>n1\<close> but not its status.\<close>

definition ctxC :: zedrouterContext where
  "ctxC = ctx0\<lparr>subNetworkObjectConfig := [''n1'' \<mapsto> \<lparr>NetworkKey = ''n1''\<rparr>]\<rparr>"

text \<open>The configuration of \<open>u1\<close> with a second underlay.\<close>

definition cfgU2 :: AppNetworkConfig where
  "cfgU2 = cfgU\<lparr>UnderlayNetworkList := [ulCfg1, ulCfg1]\<rparr>"

text \<open>The configuration of \<open>u1\<close> under another UUID, so that its key is \<open>zz\<close>.\<close>

definition cfgZ :: AppNetworkConfig where
  "cfgZ = cfgU\<lparr>UUIDandVersion := \<lparr>UUID = ''zz'', Version = ''1''\<rparr>\<rparr>"

text \<open>Two application instances, each with one overlay on the network \<open>n1\<close>.\<close>

definition olCfg1 :: OverlayNetworkConfig where
  "olCfg1 = \<lparr>Network = ''n1'', ACLs = [], AppMacAddr = None, EID = ''fd00::2'', LispSignature = [],
             MgmtIID = 0, MgmtMapServers = [], MgmtDnsNameToIPList = [], AdditionalInfoDevice = None\<rparr>"

definition cfgA :: AppNetworkConfig where
  "cfgA = \<lparr>UUIDandVersion = \<lparr>UUID = ''a1'', Version = ''1''\<rparr>, DisplayName = ''appA'',
           IsZedmanager = False, SeparateDataPlane = False,
           OverlayNetworkList = [olCfg1], UnderlayNetworkList = []\<rparr>"

definition cfgB :: AppNetworkConfig where
  "cfgB = \<lparr>UUIDandVersion = \<lparr>UUID = ''b1'', Version = ''1''\<rparr>, DisplayName = ''appB'',
           IsZedmanager = False, SeparateDataPlane = False,
           OverlayNetworkList = [olCfg1\<lparr>EID := ''fd00::3''\<rparr>], UnderlayNetworkList = []\<rparr>"

section \<open>Evaluation on the concrete inputs\<close>

lemmas eval_defs =
  handleCreate_def handleCreateMgmt_def handleCreateApp_def createOverlay_def attachOverlay_def createUnderlay_def
  handleModify_def handleModifyMgmt_def handleModifyApp_def modifyOverlay_def modifyUnderlay_def
  rejectModify_def handleDelete_def handleDeleteMgmt_def handleDeleteApp_def deleteOverlay_def
  deleteUnderlay_def handleAppNetworkConfigModify_def handleAppNetworkConfigDelete_def
  pendingAddStatus_def allNetworksExist_def getUlAddrs_def createAndStartLisp_def restartDnsmasq_def
  generateAdditionalInfo_def lispCallArgs_def newOverlayNetworkStatus_def newUnderlayNetworkStatus_def
  maybeRemoveStaleIpsets_def findBridge_def finish_def attempt_def addError_def appendError_def run_def
  emit_def publishAppNetworkStatus_def unpublishAppNetworkStatus_def publishNetworkObjectStatus_def
  lookupAppNetworkStatus_def lookupNetworkObjectConfig_def lookupNetworkObjectStatus_def
  diffIpsets_def appNumAllocate_def appNumFree_def ifName_def Itoa_def hex02_def natToDec.simps
  natToHex.simps digitChar_def IPString_def showUV_def globalRunDirname_def lispRunDirname_def
  enumerate_eq_zip Let_def statusAfter_def allocatedAfter_def callsAfter_def identityAfter_def
  deviceIdentity_def noIdentity_def

lemmas fixture_defs =
  ext0_def ctx0_def ctxN_def net1_def ulCfg1_def cfgU_def stU_def olCfgM_def cfgM_def stM_def ctxM_def
  cfgM2_def cfgBad_def ctxU_def ctxC_def olCfg1_def cfgA_def cfgB_def cfgZ_def cfgU2_def

section \<open>Events that are ignored\<close>

text \<open>
  Claim C9. A delete event (handleAppNetworkConfigDelete) for a key that has no
  AppNetworkStatus is a no-op: the handler returns with the context as it was, so no
  error is recorded, no status is published or removed, nothing is called on the host
  and the allocator keeps its table.
\<close>

theorem delete_absent_noop:
  "pubAppNetworkStatus c key = None \<Longrightarrow> handleAppNetworkConfigDelete ext c key config = Inr c"
  by (simp add: handleAppNetworkConfigDelete_def lookupAppNetworkStatus_def)

theorem delete_absent_noop_witness:
  "pubAppNetworkStatus ctxN ''u1'' = None \<and> handleAppNetworkConfigDelete ext0 ctxN ''u1'' cfgU = Inr ctxN"
proof -
  have absent: "pubAppNetworkStatus ctxN ''u1'' = None"
    by (simp add: ctxN_def ctx0_def)
  from absent delete_absent_noop [OF absent, of ext0 cfgU] show ?thesis
    by simp
qed

text \<open>
  Claim C10, as the code has it. A configuration event whose key is not the key of the
  configuration it carries is ignored by handleAppNetworkConfigModify: the context
  stays as it was, so no status is created, modified or deleted. lookupAppNetworkStatus
  treats a stored status whose own key is not the key asked for as not found. The
  delete handler is different: handleAppNetworkConfigDelete never reads the
  configuration it is handed, so whatever configuration comes with the key, the event
  does the same.
\<close>

theorem key_mismatch_ignored:
  "(keyOf ext (UUIDandVersion config) \<noteq> key \<longrightarrow>
      handleAppNetworkConfigModify ext c key config = Inr c)
   \<and> (pubAppNetworkStatus c key = Some status \<and> keyOf ext (UUIDandVersion status) \<noteq> key \<longrightarrow>
        lookupAppNetworkStatus ext c key = None)
   \<and> handleAppNetworkConfigDelete ext c key config = handleAppNetworkConfigDelete ext c key config'"
  by (simp add: handleAppNetworkConfigModify_def lookupAppNetworkStatus_def
      handleAppNetworkConfigDelete_def)

theorem key_mismatch_ignored_witness:
  "keyOf ext0 (UUIDandVersion cfgU) \<noteq> ''u2''
   \<and> handleAppNetworkConfigModify ext0 ctxN ''u2'' cfgU = Inr ctxN
   \<and> pubAppNetworkStatus (ctxN\<lparr>pubAppNetworkStatus := [''u2'' \<mapsto> stU]\<rparr>) ''u2'' = Some stU
   \<and> keyOf ext0 (UUIDandVersion stU) \<noteq> ''u2''
   \<and> lookupAppNetworkStatus ext0 (ctxN\<lparr>pubAppNetworkStatus := [''u2'' \<mapsto> stU]\<rparr>) ''u2'' = None
   \<and> handleAppNetworkConfigDelete ext0 ctxU ''u1'' cfgZ = handleAppNetworkConfigDelete ext0 ctxU ''u1'' cfgU"
proof -
  have k1: "keyOf ext0 (UUIDandVersion cfgU) \<noteq> ''u2''"
    by (simp add: ext0_def cfgU_def)
  have k2: "pubAppNetworkStatus (ctxN\<lparr>pubAppNetworkStatus := [''u2'' \<mapsto> stU]\<rparr>) ''u2'' = Some stU
            \<and> keyOf ext0 (UUIDandVersion stU) \<noteq> ''u2''"
    by (simp add: ext0_def stU_def)
  from key_mismatch_ignored [of ext0 cfgU "''u2''" ctxN]
       key_mismatch_ignored [of ext0 cfgU "''u2''" "ctxN\<lparr>pubAppNetworkStatus := [''u2'' \<mapsto> stU]\<rparr>" stU]
       key_mismatch_ignored [of ext0 cfgZ "''u1''" ctxU _ cfgU]
       k1 k2
  show ?thesis by blast
qed

text \<open>
  Claim C10 as worded, for every inbound configuration event, fails on a delete event.
  The status \<open>stU\<close> is stored under \<open>u1\<close>; a delete event for \<open>u1\<close> comes with a
  configuration whose own key is \<open>zz\<close>. The event is not ignored: handleDelete runs,
  makes its calls on the host, removes the status and frees the number.
\<close>

theorem delete_mismatch_not_ignored:
  "keyOf ext0 (UUIDandVersion cfgZ) = ''zz''
   \<and> pubAppNetworkStatus ctxU ''u1'' = Some stU
   \<and> AllocatedAppNum ctxU = [(''u1'', False, 0)]
   \<and> handleAppNetworkConfigDelete ext0 ctxU ''u1'' cfgZ \<noteq> Inr ctxU
   \<and> statusAfter ''u1'' (handleAppNetworkConfigDelete ext0 ctxU ''u1'' cfgZ) = None
   \<and> allocatedAfter (handleAppNetworkConfigDelete ext0 ctxU ''u1'' cfgZ) = Some []
   \<and> length (callsAfter (handleAppNetworkConfigDelete ext0 ctxU ''u1'' cfgZ)) = 7"
  by (simp add: eval_defs fixture_defs)

section \<open>Creates that are deferred or aborted\<close>





lemma create_malformed_eq:
  fixes config :: AppNetworkConfig
  assumes "IsZedmanager config"
    and "length (OverlayNetworkList config) \<noteq> 1 \<or> length (UnderlayNetworkList config) \<noteq> 0"
  shows "handleCreate ext c key config =
           Inr (c\<lparr>pubAppNetworkStatus := (pubAppNetworkStatus c)(keyOf ext (UUIDandVersion config) \<mapsto>
                     (pendingAddStatus config
                        (fst (appNumAllocate (UUID (UUIDandVersion config)) True (AllocatedAppNum c))))
                     \<lparr>PendingAdd := False,
                      Error := appendError [] ''IsZedmanager'' ''Malformed IsZedmanager config; ignored'',
                      ErrorTime := timeNow ext (effects c @
                         [PublishApp (keyOf ext (UUIDandVersion config))
                           (pendingAddStatus config
                             (fst (appNumAllocate (UUID (UUIDandVersion config)) True (AllocatedAppNum c))))])\<rparr>),
                  AllocatedAppNum := snd (appNumAllocate (UUID (UUIDandVersion config)) True (AllocatedAppNum c)),
                  effects := effects c @
                    [PublishApp (keyOf ext (UUIDandVersion config))
                       (pendingAddStatus config
                          (fst (appNumAllocate (UUID (UUIDandVersion config)) True (AllocatedAppNum c)))),
                     PublishApp (keyOf ext (UUIDandVersion config))
                       ((pendingAddStatus config
                        (fst (appNumAllocate (UUID (UUIDandVersion config)) True (AllocatedAppNum c))))
                     \<lparr>PendingAdd := False,
                      Error := appendError [] ''IsZedmanager'' ''Malformed IsZedmanager config; ignored'',
                      ErrorTime := timeNow ext (effects c @
                         [PublishApp (keyOf ext (UUIDandVersion config))
                           (pendingAddStatus config
                             (fst (appNumAllocate (UUID (UUIDandVersion config)) True (AllocatedAppNum c))))])\<rparr>)]\<rparr>)"
  using assms
  by (simp add: handleCreate_def Let_def handleCreateMgmt_def finish_def addError_def
        publishAppNetworkStatus_def emit_def pendingAddStatus_def)

text \<open>
  Claim C2, as the code has it. A create whose configuration has the management flag
  and other than exactly one overlay and no underlay is aborted: handleCreate returns
  with a status published for the instance whose Error is the one message
  \<open>IsZedmanager: Malformed IsZedmanager config; ignored\<close>, hence not empty, whose
  PendingAdd is cleared and which has no overlay and no underlay; the only calls made
  are the two publications of the status, so no interface is created and nothing is
  set up on the host; the tables of the networks, the data plane flag and the device
  identity are as they were. The abort comes after one allocation: the numeric ID,
  taken at the very start of handleCreate, stays allocated.
\<close>

theorem create_malformed:
  fixes config :: AppNetworkConfig
  assumes "IsZedmanager config"
    and "length (OverlayNetworkList config) \<noteq> 1 \<or> length (UnderlayNetworkList config) \<noteq> 0"
  shows "\<exists>c' st. handleCreate ext c key config = Inr c'
           \<and> pubAppNetworkStatus c' (keyOf ext (UUIDandVersion config)) = Some st
           \<and> Error st = appendError [] ''IsZedmanager'' ''Malformed IsZedmanager config; ignored''
           \<and> Error st \<noteq> []
           \<and> \<not> PendingAdd st \<and> \<not> PendingModify st \<and> \<not> PendingDelete st
           \<and> OverlayNetworkList st = [] \<and> UnderlayNetworkList st = []
           \<and> effects c' = effects c @
                [PublishApp (keyOf ext (UUIDandVersion config))
                   (pendingAddStatus config
                      (fst (appNumAllocate (UUID (UUIDandVersion config)) True (AllocatedAppNum c)))),
                 PublishApp (keyOf ext (UUIDandVersion config)) st]
           \<and> pubNetworkObjectStatus c' = pubNetworkObjectStatus c
           \<and> separateDataPlane c' = separateDataPlane c
           \<and> deviceIdentity c' = deviceIdentity c
           \<and> AllocatedAppNum c' =
                snd (appNumAllocate (UUID (UUIDandVersion config)) True (AllocatedAppNum c))"
  unfolding create_malformed_eq [OF assms]
  by (simp add: pendingAddStatus_def appendError_def deviceIdentity_def)

theorem create_malformed_witness:
  "IsZedmanager cfgBad
   \<and> length (OverlayNetworkList cfgBad) = 2
   \<and> map_option Error (statusAfter ''m1'' (handleCreate ext0 ctx0 ''m1'' cfgBad))
        = Some (''IsZedmanager: Malformed IsZedmanager config; ignored'' @ [CHR 0x0A, CHR 0x0A])
   \<and> map_option PendingAdd (statusAfter ''m1'' (handleCreate ext0 ctx0 ''m1'' cfgBad)) = Some False
   \<and> length (callsAfter (handleCreate ext0 ctx0 ''m1'' cfgBad)) = 2"
proof -
  have h1: "IsZedmanager cfgBad" and h2: "length (OverlayNetworkList cfgBad) = 2"
    and k: "keyOf ext0 (UUIDandVersion cfgBad) = ''m1''" and e: "effects ctx0 = []"
    by (simp_all add: cfgBad_def cfgM_def ext0_def ctx0_def)
  from h2 have "length (OverlayNetworkList cfgBad) \<noteq> 1 \<or> length (UnderlayNetworkList cfgBad) \<noteq> 0"
    by simp
  from create_malformed [OF h1 this, of ext0 ctx0 "''m1''"]
  obtain c' st where "handleCreate ext0 ctx0 ''m1'' cfgBad = Inr c'"
      "pubAppNetworkStatus c' ''m1'' = Some st"
      "Error st = appendError [] ''IsZedmanager'' ''Malformed IsZedmanager config; ignored''"
      "\<not> PendingAdd st" "length (effects c') = 2"
    unfolding k e by auto
  with h1 h2 show ?thesis
    by (simp add: statusAfter_def callsAfter_def appendError_def)
qed

text \<open>
  Claim C2 as worded, aborted before any resource allocation, fails on the numeric ID:
  the allocator's table is empty before the create of the malformed \<open>cfgBad\<close> and holds
  the number of \<open>m1\<close> after it.
\<close>

theorem create_malformed_allocates:
  "IsZedmanager cfgBad
   \<and> length (OverlayNetworkList cfgBad) = 2
   \<and> AllocatedAppNum ctx0 = []
   \<and> allocatedAfter (handleCreate ext0 ctx0 ''m1'' cfgBad) = Some [(''m1'', True, 0)]"
  by (simp add: eval_defs fixture_defs)

section \<open>Modifies that are rejected\<close>

text \<open>What handleModify returns on each of its four rejections.\<close>

lemma reject_flag:
  fixes config :: AppNetworkConfig
  assumes "IsZedmanager config \<noteq> IsZedmanager status"
  shows "handleModify ext c key config status =
     Inr (publishAppNetworkStatus ext
            (status\<lparr>PendingModify := False,
                     Error := appendError (Error status) ''handleModify''
                                (''Unsupported: IsZedmanager changed for '' @ showUV (UUIDandVersion config)),
                     ErrorTime := timeNow ext (effects c)\<rparr>) c)"
  using assms by (simp add: handleModify_def Let_def rejectModify_def finish_def addError_def)

lemma reject_overlays:
  fixes config :: AppNetworkConfig
  assumes "IsZedmanager config = IsZedmanager status"
    and "int (length (OverlayNetworkList config)) \<noteq> OlNum status"
  shows "handleModify ext c key config status =
     Inr (publishAppNetworkStatus ext
            (status\<lparr>PendingModify := False,
                     Error := appendError (Error status) ''handleModify''
                                (''Unsupported: Changed number of overlays for '' @ showUV (UUIDandVersion config)),
                     ErrorTime := timeNow ext (effects c)\<rparr>) c)"
  using assms by (simp add: handleModify_def Let_def rejectModify_def finish_def addError_def)

lemma reject_underlays:
  fixes config :: AppNetworkConfig
  assumes "IsZedmanager config = IsZedmanager status"
    and "int (length (OverlayNetworkList config)) = OlNum status"
    and "int (length (UnderlayNetworkList config)) \<noteq> UlNum status"
  shows "handleModify ext c key config status =
     Inr (publishAppNetworkStatus ext
            (status\<lparr>PendingModify := False,
                     Error := appendError (Error status) ''handleModify''
                                (''Unsupported: Changed number of underlays for '' @ showUV (UUIDandVersion config)),
                     ErrorTime := timeNow ext (effects c)\<rparr>) c)"
  using assms by (simp add: handleModify_def Let_def rejectModify_def finish_def addError_def)

lemma reject_dataplane:
  fixes config :: AppNetworkConfig
  assumes "IsZedmanager config = IsZedmanager status"
    and "int (length (OverlayNetworkList config)) = OlNum status"
    and "int (length (UnderlayNetworkList config)) = UlNum status"
    and "IsZedmanager config" and "SeparateDataPlane config \<noteq> separateDataPlane c"
  shows "handleModify ext c key config status =
     Inr (publishAppNetworkStatus ext
            (status\<lparr>SeparateDataPlane := separateDataPlane c, UUIDandVersion := UUIDandVersion config,
                     PendingModify := False,
                     Error := appendError (Error status) ''handleModify''
                                (''Unsupported: Changing experimental data plane flag on the fly'' @ [CHR 0x0A]),
                     ErrorTime := timeNow ext (effects c @
                        [PublishApp (keyOf ext (UUIDandVersion config))
                           (status\<lparr>SeparateDataPlane := separateDataPlane c, PendingModify := True,
                                    UUIDandVersion := UUIDandVersion config\<rparr>)])\<rparr>)
            (publishAppNetworkStatus ext
               (status\<lparr>SeparateDataPlane := separateDataPlane c, PendingModify := True,
                        UUIDandVersion := UUIDandVersion config\<rparr>) c))"
  using assms
  by (simp add: handleModify_def Let_def finish_def addError_def handleModifyMgmt_def
      publishAppNetworkStatus_def emit_def)

text \<open>
  Claim C3, as the code has it. A modify in which the management flag changed, or the
  number of overlays or of underlays changed, is rejected atomically: handleModify
  publishes the status with PendingModify cleared and the error appended, every other
  field as it was, and does nothing else. A modify of the management instance that
  changes the separate data plane flag is rejected too, but later: PendingModify is
  cleared and the error appended, the overlays and underlays with their bridge, vif
  and address bindings, the numbers, the management flag, the name and the other two
  pending flags are as they were, nothing is called on the host, and the tables of the
  networks and the allocator are as they were; the theorem promises nothing for
  UUIDandVersion and SeparateDataPlane of that status, which the code has overwritten
  by then.
\<close>

theorem modify_rejected:
  fixes config :: AppNetworkConfig
  shows
  "(IsZedmanager config \<noteq> IsZedmanager status
      \<or> int (length (OverlayNetworkList config)) \<noteq> OlNum status
      \<or> int (length (UnderlayNetworkList config)) \<noteq> UlNum status \<longrightarrow>
     (\<exists>errStr. handleModify ext c key config status =
        Inr (publishAppNetworkStatus ext
               (status\<lparr>PendingModify := False,
                        Error := appendError (Error status) ''handleModify'' errStr,
                        ErrorTime := timeNow ext (effects c)\<rparr>) c)))
   \<and> (IsZedmanager config = IsZedmanager status
      \<and> int (length (OverlayNetworkList config)) = OlNum status
      \<and> int (length (UnderlayNetworkList config)) = UlNum status
      \<and> IsZedmanager config \<and> SeparateDataPlane config \<noteq> separateDataPlane c \<longrightarrow>
     (\<exists>c' st errStr. handleModify ext c key config status = Inr c'
        \<and> pubAppNetworkStatus c' (keyOf ext (UUIDandVersion config)) = Some st
        \<and> \<not> PendingModify st
        \<and> Error st = appendError (Error status) ''handleModify'' errStr
        \<and> OverlayNetworkList st = OverlayNetworkList status
        \<and> UnderlayNetworkList st = UnderlayNetworkList status
        \<and> AppNum st = AppNum status \<and> OlNum st = OlNum status \<and> UlNum st = UlNum status
        \<and> IsZedmanager st = IsZedmanager status \<and> DisplayName st = DisplayName status
        \<and> PendingAdd st = PendingAdd status \<and> PendingDelete st = PendingDelete status
        \<and> list_all (\<lambda>e. case e of Call n args \<Rightarrow> False | _ \<Rightarrow> True) (drop (length (effects c)) (effects c'))
        \<and> pubNetworkObjectStatus c' = pubNetworkObjectStatus c
        \<and> AllocatedAppNum c' = AllocatedAppNum c))"
proof (intro conjI impI)
  assume "IsZedmanager config \<noteq> IsZedmanager status
      \<or> int (length (OverlayNetworkList config)) \<noteq> OlNum status
      \<or> int (length (UnderlayNetworkList config)) \<noteq> UlNum status"
  then consider (flag) "IsZedmanager config \<noteq> IsZedmanager status"
    | (ol) "IsZedmanager config = IsZedmanager status"
           "int (length (OverlayNetworkList config)) \<noteq> OlNum status"
    | (ul) "IsZedmanager config = IsZedmanager status"
           "int (length (OverlayNetworkList config)) = OlNum status"
           "int (length (UnderlayNetworkList config)) \<noteq> UlNum status"
    by blast
  then show "\<exists>errStr. handleModify ext c key config status =
        Inr (publishAppNetworkStatus ext
               (status\<lparr>PendingModify := False,
                        Error := appendError (Error status) ''handleModify'' errStr,
                        ErrorTime := timeNow ext (effects c)\<rparr>) c)"
  proof cases
    case flag
    from reject_flag [OF flag] show ?thesis by blast
  next
    case ol
    from reject_overlays [OF ol] show ?thesis by blast
  next
    case ul
    from reject_underlays [OF ul] show ?thesis by blast
  qed
next
  assume a: "IsZedmanager config = IsZedmanager status
      \<and> int (length (OverlayNetworkList config)) = OlNum status
      \<and> int (length (UnderlayNetworkList config)) = UlNum status
      \<and> IsZedmanager config \<and> SeparateDataPlane config \<noteq> separateDataPlane c"
  then have eq: "handleModify ext c key config status =
     Inr (publishAppNetworkStatus ext
            (status\<lparr>SeparateDataPlane := separateDataPlane c, UUIDandVersion := UUIDandVersion config,
                     PendingModify := False,
                     Error := appendError (Error status) ''handleModify''
                                (''Unsupported: Changing experimental data plane flag on the fly'' @ [CHR 0x0A]),
                     ErrorTime := timeNow ext (effects c @
                        [PublishApp (keyOf ext (UUIDandVersion config))
                           (status\<lparr>SeparateDataPlane := separateDataPlane c, PendingModify := True,
                                    UUIDandVersion := UUIDandVersion config\<rparr>)])\<rparr>)
            (publishAppNetworkStatus ext
               (status\<lparr>SeparateDataPlane := separateDataPlane c, PendingModify := True,
                        UUIDandVersion := UUIDandVersion config\<rparr>) c))"
    by (intro reject_dataplane) blast+
  show "\<exists>c' st errStr. handleModify ext c key config status = Inr c'
        \<and> pubAppNetworkStatus c' (keyOf ext (UUIDandVersion config)) = Some st
        \<and> \<not> PendingModify st
        \<and> Error st = appendError (Error status) ''handleModify'' errStr
        \<and> OverlayNetworkList st = OverlayNetworkList status
        \<and> UnderlayNetworkList st = UnderlayNetworkList status
        \<and> AppNum st = AppNum status \<and> OlNum st = OlNum status \<and> UlNum st = UlNum status
        \<and> IsZedmanager st = IsZedmanager status \<and> DisplayName st = DisplayName status
        \<and> PendingAdd st = PendingAdd status \<and> PendingDelete st = PendingDelete status
        \<and> list_all (\<lambda>e. case e of Call n args \<Rightarrow> False | _ \<Rightarrow> True) (drop (length (effects c)) (effects c'))
        \<and> pubNetworkObjectStatus c' = pubNetworkObjectStatus c
        \<and> AllocatedAppNum c' = AllocatedAppNum c"
    unfolding eq
    apply (rule exI [where x = "publishAppNetworkStatus ext
            (status\<lparr>SeparateDataPlane := separateDataPlane c, UUIDandVersion := UUIDandVersion config,
                     PendingModify := False,
                     Error := appendError (Error status) ''handleModify''
                                (''Unsupported: Changing experimental data plane flag on the fly'' @ [CHR 0x0A]),
                     ErrorTime := timeNow ext (effects c @
                        [PublishApp (keyOf ext (UUIDandVersion config))
                           (status\<lparr>SeparateDataPlane := separateDataPlane c, PendingModify := True,
                                    UUIDandVersion := UUIDandVersion config\<rparr>)])\<rparr>)
            (publishAppNetworkStatus ext
               (status\<lparr>SeparateDataPlane := separateDataPlane c, PendingModify := True,
                        UUIDandVersion := UUIDandVersion config\<rparr>) c)"])
    apply (rule exI [where x = "status\<lparr>SeparateDataPlane := separateDataPlane c, UUIDandVersion := UUIDandVersion config,
                     PendingModify := False,
                     Error := appendError (Error status) ''handleModify''
                                (''Unsupported: Changing experimental data plane flag on the fly'' @ [CHR 0x0A]),
                     ErrorTime := timeNow ext (effects c @
                        [PublishApp (keyOf ext (UUIDandVersion config))
                           (status\<lparr>SeparateDataPlane := separateDataPlane c, PendingModify := True,
                                    UUIDandVersion := UUIDandVersion config\<rparr>)])\<rparr>"])
    apply (rule exI [where x = "''Unsupported: Changing experimental data plane flag on the fly'' @ [CHR 0x0A]"])
    apply (simp add: publishAppNetworkStatus_def emit_def Let_def)
    done
qed

theorem modify_rejected_witness:
  "int (length (UnderlayNetworkList cfgU2)) \<noteq> UlNum stU
   \<and> statusAfter ''u1'' (handleModify ext0 ctxU ''u1'' cfgU2 stU)
        = Some (stU\<lparr>Error := ''handleModify: Unsupported: Changed number of underlays for {u1 1}''
                                  @ [CHR 0x0A, CHR 0x0A]\<rparr>)
   \<and> IsZedmanager cfgM2 \<and> IsZedmanager stM
   \<and> int (length (OverlayNetworkList cfgM2)) = OlNum stM
   \<and> int (length (UnderlayNetworkList cfgM2)) = UlNum stM
   \<and> SeparateDataPlane cfgM2 \<noteq> separateDataPlane ctxM
   \<and> map_option OverlayNetworkList (statusAfter ''m1'' (handleModify ext0 ctxM ''m1'' cfgM2 stM))
        = Some (OverlayNetworkList stM)
   \<and> map_option PendingModify (statusAfter ''m1'' (handleModify ext0 ctxM ''m1'' cfgM2 stM))
        = Some False"
proof -
  have h1: "int (length (UnderlayNetworkList cfgU2)) \<noteq> UlNum stU"
    by (simp add: cfgU2_def cfgU_def stU_def)
  have h2: "IsZedmanager cfgM2 = IsZedmanager stM
      \<and> int (length (OverlayNetworkList cfgM2)) = OlNum stM
      \<and> int (length (UnderlayNetworkList cfgM2)) = UlNum stM
      \<and> IsZedmanager cfgM2 \<and> SeparateDataPlane cfgM2 \<noteq> separateDataPlane ctxM"
    by (simp add: cfgM2_def cfgM_def stM_def ctxM_def ctx0_def)
  have k: "keyOf ext0 (UUIDandVersion cfgM2) = ''m1''"
    by (simp add: cfgM2_def ext0_def)
  from modify_rejected [of cfgU2 stU ext0 ctxU "''u1''"] h1
  obtain errStr where "handleModify ext0 ctxU ''u1'' cfgU2 stU =
        Inr (publishAppNetworkStatus ext0
               (stU\<lparr>PendingModify := False,
                        Error := appendError (Error stU) ''handleModify'' errStr,
                        ErrorTime := timeNow ext0 (effects ctxU)\<rparr>) ctxU)"
    by blast
  then have "map_option UnderlayNetworkList (statusAfter ''u1'' (handleModify ext0 ctxU ''u1'' cfgU2 stU))
        = Some (UnderlayNetworkList stU)"
    by (simp add: statusAfter_def publishAppNetworkStatus_def emit_def Let_def ext0_def stU_def)
  moreover have "statusAfter ''u1'' (handleModify ext0 ctxU ''u1'' cfgU2 stU)
        = Some (stU\<lparr>Error := ''handleModify: Unsupported: Changed number of underlays for {u1 1}''
                                  @ [CHR 0x0A, CHR 0x0A]\<rparr>)"
    by (simp add: eval_defs fixture_defs)
  moreover from modify_rejected [of cfgM2 stM ext0 ctxM "''m1''"] h2
  obtain c' st where "handleModify ext0 ctxM ''m1'' cfgM2 stM = Inr c'"
      "pubAppNetworkStatus c' ''m1'' = Some st" "\<not> PendingModify st"
      "OverlayNetworkList st = OverlayNetworkList stM"
    unfolding k by blast
  then have "map_option OverlayNetworkList (statusAfter ''m1'' (handleModify ext0 ctxM ''m1'' cfgM2 stM))
        = Some (OverlayNetworkList stM)
      \<and> map_option PendingModify (statusAfter ''m1'' (handleModify ext0 ctxM ''m1'' cfgM2 stM))
        = Some False"
    by (simp add: statusAfter_def)
  ultimately show ?thesis using h1 h2 by blast
qed

text \<open>
  Claim C3 as worded, the status otherwise unchanged byte for byte, fails on the
  rejection of a changed data plane flag. The status \<open>stM\<close> of the management instance
  has version 1 and SeparateDataPlane unset; the context has the flag set; the
  configuration \<open>cfgM2\<close> has version 2 and the flag unset. The modify is rejected, and
  the status it leaves published has version 2 and SeparateDataPlane set.
\<close>

theorem modify_rejected_late:
  "IsZedmanager cfgM2 \<and> IsZedmanager stM
   \<and> int (length (OverlayNetworkList cfgM2)) = OlNum stM
   \<and> int (length (UnderlayNetworkList cfgM2)) = UlNum stM
   \<and> SeparateDataPlane cfgM2 \<noteq> separateDataPlane ctxM
   \<and> pubAppNetworkStatus ctxM ''m1'' = Some stM
   \<and> SeparateDataPlane stM = False
   \<and> UUIDandVersion stM = \<lparr>UUID = ''m1'', Version = ''1''\<rparr>
   \<and> map_option Error (statusAfter ''m1'' (handleModify ext0 ctxM ''m1'' cfgM2 stM))
        = Some (''handleModify: Unsupported: Changing experimental data plane flag on the fly''
                 @ [CHR 0x0A, CHR 0x0A, CHR 0x0A])
   \<and> map_option SeparateDataPlane (statusAfter ''m1'' (handleModify ext0 ctxM ''m1'' cfgM2 stM))
        = Some True
   \<and> map_option UUIDandVersion (statusAfter ''m1'' (handleModify ext0 ctxM ''m1'' cfgM2 stM))
        = Some \<lparr>UUID = ''m1'', Version = ''2''\<rparr>"
  by (simp add: eval_defs fixture_defs)

section \<open>Modifies that are accepted\<close>

text \<open>
  Claim C4 does not hold of the code. The modify of \<open>u1\<close> with the configuration it
  was created from is accepted: no count and no flag differs, no error is recorded.
  The status before it has the bindings of its underlay: bridge \<open>bn5\<close>, vif
  \<open>nbu1x0\<close>, the MAC and the two addresses. The status handleModify publishes at its
  end has that underlay rebuilt from the configuration alone, as
  \<^verbatim>\<open>make([]types.UnderlayNetworkStatus, n)\<close> leaves it: every binding is empty.
\<close>

theorem modify_wipes_bindings:
  "IsZedmanager cfgU = IsZedmanager stU
   \<and> int (length (OverlayNetworkList cfgU)) = OlNum stU
   \<and> int (length (UnderlayNetworkList cfgU)) = UlNum stU
   \<and> pubAppNetworkStatus ctxU ''u1'' = Some stU
   \<and> map Bridge (UnderlayNetworkList stU) = [''bn5'']
   \<and> map Vif (UnderlayNetworkList stU) = [''nbu1x0'']
   \<and> map Mac (UnderlayNetworkList stU) = [''00:16:3e:00:01:00'']
   \<and> map BridgeIPAddr (UnderlayNetworkList stU) = [''10.1.0.2'']
   \<and> map AssignedIPAddr (UnderlayNetworkList stU) = [''10.1.0.2'']
   \<and> map_option Error (statusAfter ''u1'' (handleModify ext0 ctxU ''u1'' cfgU stU)) = Some []
   \<and> map_option PendingModify (statusAfter ''u1'' (handleModify ext0 ctxU ''u1'' cfgU stU)) = Some False
   \<and> map_option (map Bridge \<circ> UnderlayNetworkList)
         (statusAfter ''u1'' (handleModify ext0 ctxU ''u1'' cfgU stU)) = Some [[]]
   \<and> map_option (map Vif \<circ> UnderlayNetworkList)
         (statusAfter ''u1'' (handleModify ext0 ctxU ''u1'' cfgU stU)) = Some [[]]
   \<and> map_option (map Mac \<circ> UnderlayNetworkList)
         (statusAfter ''u1'' (handleModify ext0 ctxU ''u1'' cfgU stU)) = Some [[]]
   \<and> map_option (map BridgeIPAddr \<circ> UnderlayNetworkList)
         (statusAfter ''u1'' (handleModify ext0 ctxU ''u1'' cfgU stU)) = Some [[]]
   \<and> map_option (map AssignedIPAddr \<circ> UnderlayNetworkList)
         (statusAfter ''u1'' (handleModify ext0 ctxU ''u1'' cfgU stU)) = Some [[]]"
  by (simp add: eval_defs fixture_defs)

text \<open>
  Claim C5 does not hold of the code. From the start, the configuration of \<open>u1\<close>
  arrives: the create leaves \<open>stU\<close> published. The same configuration arrives again:
  the modify calls \<^verbatim>\<open>updateACLConfiglet\<close> and publishes the status of the network, and
  the status it leaves published is not \<open>stU\<close>: its underlay has lost its bindings.
\<close>

theorem unchanged_modify_changes_status:
  "statusAfter ''u1'' (processEvents ext0 [ConfigModify ''u1'' cfgU] ctxN) = Some stU
   \<and> map UnderlayNetworkConfig (UnderlayNetworkList stU) = UnderlayNetworkList cfgU
   \<and> statusAfter ''u1'' (processEvents ext0 [ConfigModify ''u1'' cfgU, ConfigModify ''u1'' cfgU] ctxN)
        = Some (stU\<lparr>UnderlayNetworkList := [newUnderlayNetworkStatus ulCfg1]\<rparr>)
   \<and> stU\<lparr>UnderlayNetworkList := [newUnderlayNetworkStatus ulCfg1]\<rparr> \<noteq> stU
   \<and> drop 10 (map (\<lambda>e. case e of Call n args \<Rightarrow> n | _ \<Rightarrow> [])
               (callsAfter (processEvents ext0
                  [ConfigModify ''u1'' cfgU, ConfigModify ''u1'' cfgU] ctxN)))
        = [[], ''updateACLConfiglet'', [], []]"
  by (simp add: eval_defs fixture_defs)

section \<open>What the steps of a handler preserve\<close>

lemma published_append: "published (xs @ ys) = published xs @ published ys"
  by (induction xs rule: published.induct) simp_all



subsection \<open>The invariant of a frame\<close>

lemma frameInv_run [simp]: "frameInv ext sc (run (Call n args) f) = frameInv ext sc f"
  by (simp add: frameInv_def ctxInv_def run_def emit_def published_append)


lemma statInv_error [simp]: "statInv ext sc (st\<lparr>Error := e, ErrorTime := t\<rparr>) = statInv ext sc st"
  by (simp add: statInv_def within_def)



lemma frameInv_restart [simp]: "frameInv ext sc (restartDnsmasq b ip nc hp ips f) = frameInv ext sc f"
  by (simp add: restartDnsmasq_def)

lemma frameInv_stale [simp]: "frameInv ext sc (maybeRemoveStaleIpsets stale f) = frameInv ext sc f"
  unfolding maybeRemoveStaleIpsets_def by (induction stale arbitrary: f) simp_all

lemma frameInv_pubnet [simp]:
  "frameInv ext sc (f\<lparr>zctx := publishNetworkObjectStatus ns (zctx f)\<rparr>) = frameInv ext sc f"
  by (simp add: frameInv_def ctxInv_def publishNetworkObjectStatus_def emit_def published_append)

lemma frameInv_lists [simp]:
  "frameInv ext sc (f\<lparr>stat := (stat f)\<lparr>OverlayNetworkList := ols\<rparr>\<rparr>) = frameInv ext sc f"
  "frameInv ext sc (f\<lparr>stat := (stat f)\<lparr>UnderlayNetworkList := uls\<rparr>\<rparr>) = frameInv ext sc f"
  "frameInv ext sc (f\<lparr>stat := (stat f)\<lparr>OverlayNetworkList := ols, UnderlayNetworkList := uls\<rparr>\<rparr>)
     = frameInv ext sc f"
  by (simp_all add: frameInv_def statInv_def within_def)

lemma frameInv_ctx_fields [simp]:
  "frameInv ext sc (f\<lparr>zctx := (zctx f)\<lparr>separateDataPlane := b\<rparr>\<rparr>) = frameInv ext sc f"
  "frameInv ext sc (f\<lparr>zctx := (zctx f)\<lparr>deviceEID := e, deviceIID := i, additionalInfoDevice := a\<rparr>\<rparr>)
     = frameInv ext sc f"
  by (simp_all add: frameInv_def ctxInv_def)



lemma frameInv_lisp:
  "frameInv ext sc f \<Longrightarrow>
     (case createAndStartLisp ext ol sv b f of Fatal m \<Rightarrow> True | Return f' \<Rightarrow> False
      | Next f' \<Rightarrow> frameInv ext sc f')"
  by (simp add: createAndStartLisp_def Let_def split: option.split)








lemma statInv_lists [simp]:
  "statInv ext sc (st\<lparr>OverlayNetworkList := ols\<rparr>) = statInv ext sc st"
  "statInv ext sc (st\<lparr>UnderlayNetworkList := uls\<rparr>) = statInv ext sc st"
  by (simp_all add: statInv_def within_def)





lemma ctxInv_alloc [simp]: "ctxInv ext sc (c\<lparr>AllocatedAppNum := t\<rparr>) = ctxInv ext sc c"
  by (simp add: ctxInv_def)


subsection \<open>The loop bodies\<close>








subsection \<open>The branches of the handlers\<close>










subsection \<open>From the invariant of the frame to the invariant between events\<close>


section \<open>The device identity\<close>

lemma ident_ctx [simp]:
  "deviceIdentity (emit e c) = deviceIdentity c"
  "deviceIdentity (publishAppNetworkStatus ext st c) = deviceIdentity c"
  "deviceIdentity (unpublishAppNetworkStatus ext st c) = deviceIdentity c"
  "deviceIdentity (publishNetworkObjectStatus ns c) = deviceIdentity c"
  "deviceIdentity (c\<lparr>AllocatedAppNum := t\<rparr>) = deviceIdentity c"
  "deviceIdentity (c\<lparr>separateDataPlane := b\<rparr>) = deviceIdentity c"
  "deviceIdentity (c\<lparr>deviceEID := eid, deviceIID := iid, additionalInfoDevice := info\<rparr>) = (eid, iid, info)"
  by (simp_all add: deviceIdentity_def emit_def publishAppNetworkStatus_def unpublishAppNetworkStatus_def
      publishNetworkObjectStatus_def Let_def split: option.split)

lemma ident_run [simp]: "deviceIdentity (zctx (run e f)) = deviceIdentity (zctx f)"
  by (simp add: run_def)

lemma ident_addError [simp]: "deviceIdentity (zctx (addError ext tag m f)) = deviceIdentity (zctx f)"
  by (simp add: addError_def Let_def)

lemma ident_attempt [simp]: "deviceIdentity (zctx (attempt ext tag e msg f)) = deviceIdentity (zctx f)"
  by (simp add: attempt_def split: option.split)

lemma ident_restart [simp]:
  "deviceIdentity (zctx (restartDnsmasq b ip nc hp ips f)) = deviceIdentity (zctx f)"
  by (simp add: restartDnsmasq_def)

lemma ident_stale [simp]:
  "deviceIdentity (zctx (maybeRemoveStaleIpsets stale f)) = deviceIdentity (zctx f)"
  unfolding maybeRemoveStaleIpsets_def by (induction stale arbitrary: f) simp_all

lemma ident_attachOverlay [simp]:
  "deviceIdentity (zctx (attachOverlay ext config appNum ipsets i olConfig netconfig netstatus oLink f))
     = deviceIdentity (zctx f)"
  by (simp add: attachOverlay_def Let_def split: sum.split)
















section \<open>The handlers keep the invariant between events\<close>













section \<open>The pending flags\<close>



section \<open>The device identity and the management instance\<close>



section \<open>The names of the interfaces\<close>












subsection \<open>The names the create records\<close>

lemma stat_run [simp]: "stat (run e f) = stat f"
  by (simp add: run_def)

lemma lists_addError [simp]:
  "OverlayNetworkList (stat (addError ext tag m f)) = OverlayNetworkList (stat f)"
  "UnderlayNetworkList (stat (addError ext tag m f)) = UnderlayNetworkList (stat f)"
  by (simp_all add: addError_def Let_def)

lemma lists_attempt [simp]:
  "OverlayNetworkList (stat (attempt ext tag e msg f)) = OverlayNetworkList (stat f)"
  "UnderlayNetworkList (stat (attempt ext tag e msg f)) = UnderlayNetworkList (stat f)"
  by (simp_all add: attempt_def split: option.split)

lemma stat_restart [simp]: "stat (restartDnsmasq b ip nc hp ips f) = stat f"
  by (simp add: restartDnsmasq_def)

lemma stat_stale [simp]: "stat (maybeRemoveStaleIpsets stale f) = stat f"
  unfolding maybeRemoveStaleIpsets_def by (induction stale arbitrary: f) simp_all


lemma stat_lisp:
  "createAndStartLisp ext ol sv b f = Next f' \<Longrightarrow> stat f' = stat f"
  by (auto simp: createAndStartLisp_def Let_def split: option.splits)




text \<open>The calls made so far stay in the log.\<close>

lemma called_run [simp]:
  "e \<in> set (effects (zctx (run e' f))) \<longleftrightarrow> e = e' \<or> e \<in> set (effects (zctx f))"
  by (auto simp: run_def emit_def)








end
